theory Spec2Isabelle
  imports Complex_Main "HOL-Library.Word" "HOL-Library.AList"
begin

section \<open>The JavaScript values the program computes with\<close>

subsection \<open>Numbers\<close>

text \<open>
  A JavaScript number is modelled as a real number or one of the three special values
  of IEEE 754. Finite arithmetic is exact: rounding, overflow and the sign of zero are
  not modelled (every zero divisor the program can build is a positive zero). The
  special values follow IEEE 754: \<open>x / 0\<close> is an infinity, \<open>0 / 0\<close> and
  \<open>0 * Infinity\<close> are \<open>NaN\<close>, \<open>NaN\<close> is absorbing, and every comparison with
  \<open>NaN\<close> is false.
\<close>

datatype jsnum = Fin real | PInf | NInf | NaN

fun jneg :: "jsnum \<Rightarrow> jsnum" where
  "jneg (Fin a) = Fin (- a)"
| "jneg PInf = NInf"
| "jneg NInf = PInf"
| "jneg NaN = NaN"

fun jadd :: "jsnum \<Rightarrow> jsnum \<Rightarrow> jsnum" where
  "jadd (Fin a) (Fin b) = Fin (a + b)"
| "jadd (Fin a) PInf = PInf"
| "jadd (Fin a) NInf = NInf"
| "jadd PInf (Fin b) = PInf"
| "jadd PInf PInf = PInf"
| "jadd PInf NInf = NaN"
| "jadd NInf (Fin b) = NInf"
| "jadd NInf PInf = NaN"
| "jadd NInf NInf = NInf"
| "jadd NaN y = NaN"
| "jadd x NaN = NaN"

definition jsub :: "jsnum \<Rightarrow> jsnum \<Rightarrow> jsnum" where
  "jsub x y = jadd x (jneg y)"

fun jmul :: "jsnum \<Rightarrow> jsnum \<Rightarrow> jsnum" where
  "jmul (Fin a) (Fin b) = Fin (a * b)"
| "jmul (Fin a) PInf = (if a = 0 then NaN else if 0 < a then PInf else NInf)"
| "jmul (Fin a) NInf = (if a = 0 then NaN else if 0 < a then NInf else PInf)"
| "jmul PInf (Fin b) = (if b = 0 then NaN else if 0 < b then PInf else NInf)"
| "jmul NInf (Fin b) = (if b = 0 then NaN else if 0 < b then NInf else PInf)"
| "jmul PInf PInf = PInf"
| "jmul PInf NInf = NInf"
| "jmul NInf PInf = NInf"
| "jmul NInf NInf = PInf"
| "jmul NaN y = NaN"
| "jmul x NaN = NaN"

fun jdiv :: "jsnum \<Rightarrow> jsnum \<Rightarrow> jsnum" where
  "jdiv (Fin a) (Fin b) =
     (if b \<noteq> 0 then Fin (a / b)
      else if a = 0 then NaN else if 0 < a then PInf else NInf)"
| "jdiv (Fin a) PInf = Fin 0"
| "jdiv (Fin a) NInf = Fin 0"
| "jdiv PInf (Fin b) = (if 0 \<le> b then PInf else NInf)"
| "jdiv NInf (Fin b) = (if 0 \<le> b then NInf else PInf)"
| "jdiv PInf PInf = NaN"
| "jdiv PInf NInf = NaN"
| "jdiv NInf PInf = NaN"
| "jdiv NInf NInf = NaN"
| "jdiv NaN y = NaN"
| "jdiv x NaN = NaN"

text \<open>The comparison \<open>x < y\<close>; \<open>x > y\<close> is \<open>jlt y x\<close>.\<close>

fun jlt :: "jsnum \<Rightarrow> jsnum \<Rightarrow> bool" where
  "jlt (Fin a) (Fin b) = (a < b)"
| "jlt (Fin a) PInf = True"
| "jlt NInf (Fin b) = True"
| "jlt NInf PInf = True"
| "jlt x y = False"

text \<open>The comparison \<open>x >= y\<close>.\<close>

fun jge :: "jsnum \<Rightarrow> jsnum \<Rightarrow> bool" where
  "jge (Fin a) (Fin b) = (b \<le> a)"
| "jge PInf (Fin b) = True"
| "jge (Fin a) NInf = True"
| "jge PInf PInf = True"
| "jge NInf NInf = True"
| "jge PInf NInf = True"
| "jge x y = False"

definition Math_min :: "jsnum \<Rightarrow> jsnum \<Rightarrow> jsnum" where
  "Math_min x y = (if x = NaN \<or> y = NaN then NaN else if jlt y x then y else x)"

definition Math_max :: "jsnum \<Rightarrow> jsnum \<Rightarrow> jsnum" where
  "Math_max x y = (if x = NaN \<or> y = NaN then NaN else if jlt x y then y else x)"

fun Math_abs :: "jsnum \<Rightarrow> jsnum" where
  "Math_abs (Fin a) = Fin \<bar>a\<bar>"
| "Math_abs PInf = PInf"
| "Math_abs NInf = PInf"
| "Math_abs NaN = NaN"

fun Math_log :: "jsnum \<Rightarrow> jsnum" where
  "Math_log (Fin a) = (if 0 < a then Fin (ln a) else if a = 0 then NInf else NaN)"
| "Math_log PInf = PInf"
| "Math_log NInf = NaN"
| "Math_log NaN = NaN"

fun Math_log2 :: "jsnum \<Rightarrow> jsnum" where
  "Math_log2 (Fin a) = (if 0 < a then Fin (log 2 a) else if a = 0 then NInf else NaN)"
| "Math_log2 PInf = PInf"
| "Math_log2 NInf = NaN"
| "Math_log2 NaN = NaN"

fun Math_exp :: "jsnum \<Rightarrow> jsnum" where
  "Math_exp (Fin a) = Fin (exp a)"
| "Math_exp PInf = PInf"
| "Math_exp NInf = Fin 0"
| "Math_exp NaN = NaN"

text \<open>\<open>Math.pow(x, 2)\<close>, the only power the program takes.\<close>

definition Math_pow2 :: "jsnum \<Rightarrow> jsnum" where
  "Math_pow2 x = jmul x x"

text \<open>A number that lies in the closed interval from 0 to 1; \<open>NaN\<close> does not.\<close>

fun in_unit :: "jsnum \<Rightarrow> bool" where
  "in_unit (Fin a) = (0 \<le> a \<and> a \<le> 1)"
| "in_unit x = False"

subsection \<open>Strings\<close>

text \<open>
  A JavaScript string is a sequence of UTF-16 code units. \<open>js\<close> turns an ASCII
  literal into one.
\<close>

type_synonym jschar = "16 word"
type_synonym jsstring = "jschar list"

definition js :: "string \<Rightarrow> jsstring" where
  "js s = map (\<lambda>c. of_nat (of_char c)) s"

text \<open>The characters the regular expression class \<open>\s\<close> matches.\<close>

definition is_space :: "jschar \<Rightarrow> bool" where
  "is_space c =
     (c = 0x09 \<or> c = 0x0A \<or> c = 0x0B \<or> c = 0x0C \<or> c = 0x0D \<or> c = 0x20 \<or>
      c = 0xA0 \<or> c = 0x1680 \<or> (0x2000 \<le> c \<and> c \<le> 0x200A) \<or>
      c = 0x2028 \<or> c = 0x2029 \<or> c = 0x202F \<or> c = 0x205F \<or> c = 0x3000 \<or>
      c = 0xFEFF)"

text \<open>
  \<open>str.split(/\s+/)\<close>: the pieces between the maximal runs of white space, an empty
  piece before a leading run and after a trailing one included. \<open>cur\<close> is the piece
  being read.
\<close>

function split_from :: "jsstring \<Rightarrow> jsstring \<Rightarrow> jsstring list" where
  "split_from cur [] = [cur]"
| "split_from cur (c # cs) =
     (if is_space c then cur # split_from [] (dropWhile is_space cs)
      else split_from (cur @ [c]) cs)"
  by pat_completeness auto
termination
  by (relation "measure (\<lambda>(cur, s). length s)")
     (auto simp: less_Suc_eq_le length_dropWhile_le)

definition split_ws :: "jsstring \<Rightarrow> jsstring list" where
  "split_ws s = split_from [] s"

text \<open>\<open>Array.prototype.join\<close> on strings.\<close>

fun join :: "jsstring \<Rightarrow> jsstring list \<Rightarrow> jsstring" where
  "join sep [] = []"
| "join sep [x] = x"
| "join sep (x # y # ys) = x @ sep @ join sep (y # ys)"

text \<open>The decimal digits of an array index.\<close>

fun digits10 :: "nat \<Rightarrow> jsstring" where
  "digits10 n =
     (if n < 10 then [of_nat (48 + n)]
      else digits10 (n div 10) @ [of_nat (48 + n mod 10)])"

text \<open>
  Surrogate code units. Iterating a string (\<open>for (const char of str)\<close>) yields code
  points: a high surrogate followed by a low one is a single character of two units.
\<close>

definition is_high :: "jschar \<Rightarrow> bool" where
  "is_high c = (0xD800 \<le> c \<and> c \<le> 0xDBFF)"

definition is_low :: "jschar \<Rightarrow> bool" where
  "is_low c = (0xDC00 \<le> c \<and> c \<le> 0xDFFF)"

fun code_points :: "jsstring \<Rightarrow> jsstring list" where
  "code_points [] = []"
| "code_points [c] = [[c]]"
| "code_points (c # d # ds) =
     (if is_high c \<and> is_low d then [c, d] # code_points ds
      else [c] # code_points (d # ds))"

subsection \<open>JSON-like values\<close>

text \<open>
  The content and metadata of a LIT, the contexts and results of capability handlers:
  \<open>undefined\<close>, \<open>null\<close>, booleans, numbers, strings, arrays and plain objects. An
  object is the list of its own properties in insertion order, with distinct names.
\<close>

datatype jsval =
    JUndefined
  | JNull
  | JBool bool
  | JNum jsnum
  | JStr jsstring
  | JArr "jsval list"
  | JObj "(jsstring \<times> jsval) list"

text \<open>The errors the program raises or lets through.\<close>

datatype error =
    CapabilityNotFound jsstring
  | FusionTooFew
  | PatternNotFound "jsstring option"
  | InsufficientCoherence
  | TypeError
  | Thrown jsval

text \<open>Truthiness, as \<open>||\<close>, \<open>? :\<close> and \<open>if\<close> test it.\<close>

fun truthy :: "jsval \<Rightarrow> bool" where
  "truthy JUndefined = False"
| "truthy JNull = False"
| "truthy (JBool b) = b"
| "truthy (JNum n) = (n \<noteq> NaN \<and> n \<noteq> Fin 0)"
| "truthy (JStr s) = (s \<noteq> [])"
| "truthy (JArr xs) = True"
| "truthy (JObj kvs) = True"

text \<open>\<open>a || b\<close> on values.\<close>

definition or_else :: "jsval \<Rightarrow> jsval \<Rightarrow> jsval" where
  "or_else a b = (if truthy a then a else b)"

text \<open>Reading a property of \<open>null\<close> or \<open>undefined\<close> throws a \<open>TypeError\<close>.\<close>

definition nullish :: "jsval \<Rightarrow> bool" where
  "nullish v = (v = JNull \<or> v = JUndefined)"

text \<open>
  \<open>v.name\<close> for a value that is neither \<open>null\<close> nor \<open>undefined\<close>, and a name that no
  prototype defines (the program reads \<open>metadata\<close>, \<open>id\<close>, \<open>relations\<close>, \<open>value\<close>,
  \<open>persistent\<close>, \<open>knowledge\<close>, \<open>description\<close>, \<open>topic\<close>, \<open>name\<close>, \<open>steps\<close>,
  \<open>medium\<close>, \<open>lit\<close>, \<open>content\<close>, \<open>sourceLITs\<close>, \<open>outputs\<close>): the own property of
  an object, \<open>undefined\<close> on anything else.
\<close>

definition get_prop :: "jsval \<Rightarrow> jsstring \<Rightarrow> jsval" where
  "get_prop v name =
     (case v of
        JObj kvs \<Rightarrow> (case map_of kvs name of None \<Rightarrow> JUndefined | Some x \<Rightarrow> x)
      | _ \<Rightarrow> JUndefined)"

definition typeof :: "jsval \<Rightarrow> jsstring" where
  "typeof v =
     (case v of
        JUndefined \<Rightarrow> js ''undefined''
      | JNull \<Rightarrow> js ''object''
      | JBool b \<Rightarrow> js ''boolean''
      | JNum n \<Rightarrow> js ''number''
      | JStr s \<Rightarrow> js ''string''
      | JArr xs \<Rightarrow> js ''object''
      | JObj kvs \<Rightarrow> js ''object'')"

text \<open>
  \<open>Object.entries(v)\<close> of an object or array: the own properties with their values;
  \<open>Object.keys(v)\<close> is the list of their names.
\<close>

definition Object_entries :: "jsval \<Rightarrow> (jsstring \<times> jsval) list" where
  "Object_entries v =
     (case v of
        JObj kvs \<Rightarrow> kvs
      | JArr xs \<Rightarrow> zip (map digits10 [0..<length xs]) xs
      | _ \<Rightarrow> [])"

definition Object_keys :: "jsval \<Rightarrow> jsstring list" where
  "Object_keys v = map fst (Object_entries v)"

text \<open>\<open>v[k]\<close> for an object or array \<open>v\<close> and one of its keys.\<close>

definition get_own :: "jsval \<Rightarrow> jsstring \<Rightarrow> jsval" where
  "get_own v k = (case map_of (Object_entries v) k of None \<Rightarrow> JUndefined | Some x \<Rightarrow> x)"


subsection \<open>The platform\<close>

text \<open>
  What the program takes from its JavaScript platform: the clock (\<open>clock e n\<close> is the
  value of the \<open>n\<close>-th reading of \<open>Date.now()\<close>, \<open>reads e\<close> counts the readings
  made so far), the random generator (likewise), and three formatting built-ins that
  exact real arithmetic cannot define: \<open>Number.prototype.toString\<close> on a finite number
  in radix 10 and in radix 36, and \<open>Date.prototype.toISOString\<close>.
\<close>

record env =
  clock :: "nat \<Rightarrow> int"
  reads :: nat
  random :: "nat \<Rightarrow> real"
  draws :: nat
  numberToString :: "real \<Rightarrow> jsstring"
  numberToString36 :: "real \<Rightarrow> jsstring"
  toISOString :: "int \<Rightarrow> jsstring"

definition Date_now :: "env \<Rightarrow> int \<times> env" where
  "Date_now e = (clock e (reads e), e\<lparr>reads := Suc (reads e)\<rparr>)"

definition Math_random :: "env \<Rightarrow> real \<times> env" where
  "Math_random e = (random e (draws e), e\<lparr>draws := Suc (draws e)\<rparr>)"

text \<open>The handler of a capability: it may read the platform and may throw.\<close>

type_synonym handler = "jsval \<Rightarrow> env \<Rightarrow> (error + jsval) \<times> env"

subsection \<open>Conversion to text\<close>

definition Number_toString :: "env \<Rightarrow> jsnum \<Rightarrow> jsstring" where
  "Number_toString e n =
     (case n of
        Fin a \<Rightarrow> numberToString e a
      | PInf \<Rightarrow> js ''Infinity''
      | NInf \<Rightarrow> js ''-Infinity''
      | NaN \<Rightarrow> js ''NaN'')"

text \<open>
  \<open>ToString\<close>, as template literals and \<open>join\<close> apply it; \<open>join\<close> turns \<open>null\<close> and
  \<open>undefined\<close> elements into the empty string.
\<close>

fun ToString :: "env \<Rightarrow> jsval \<Rightarrow> jsstring" where
  "ToString e JUndefined = js ''undefined''"
| "ToString e JNull = js ''null''"
| "ToString e (JBool b) = (if b then js ''true'' else js ''false'')"
| "ToString e (JNum n) = Number_toString e n"
| "ToString e (JStr s) = s"
| "ToString e (JArr xs) =
     join (js '','') (map (\<lambda>x. if x = JNull \<or> x = JUndefined then [] else ToString e x) xs)"
| "ToString e (JObj kvs) = js ''[object Object]''"

definition Array_join :: "env \<Rightarrow> jsstring \<Rightarrow> jsval list \<Rightarrow> jsstring" where
  "Array_join e sep xs = join sep (map (\<lambda>x. if nullish x then [] else ToString e x) xs)"

text \<open>\<open>JSON.stringify\<close>: the quoting of a string, then the text of a value.\<close>

definition hex_digit :: "jschar \<Rightarrow> jschar" where
  "hex_digit d = (if d < 10 then 48 + d else 87 + d)"

definition unicode_escape :: "jschar \<Rightarrow> jsstring" where
  "unicode_escape c =
     [0x5C, 0x75, hex_digit (drop_bit 12 c), hex_digit (and (drop_bit 8 c) 0xF),
      hex_digit (and (drop_bit 4 c) 0xF), hex_digit (and c 0xF)]"

definition escape_unit :: "jschar \<Rightarrow> jsstring" where
  "escape_unit c =
     (if c = 0x08 then [0x5C, 0x62]
      else if c = 0x09 then [0x5C, 0x74]
      else if c = 0x0A then [0x5C, 0x6E]
      else if c = 0x0C then [0x5C, 0x66]
      else if c = 0x0D then [0x5C, 0x72]
      else if c = 0x22 then [0x5C, 0x22]
      else if c = 0x5C then [0x5C, 0x5C]
      else if c < 0x20 \<or> is_high c \<or> is_low c then unicode_escape c
      else [c])"

fun quote_units :: "jsstring \<Rightarrow> jsstring" where
  "quote_units [] = []"
| "quote_units [c] = escape_unit c"
| "quote_units (c # d # ds) =
     (if is_high c \<and> is_low d then c # d # quote_units ds
      else escape_unit c @ quote_units (d # ds))"

definition QuoteJSONString :: "jsstring \<Rightarrow> jsstring" where
  "QuoteJSONString s = [0x22] @ quote_units s @ [0x22]"

text \<open>
  The text of a value inside an array or as a property value: an \<open>undefined\<close> array
  element and a number that is not finite are written \<open>null\<close>, a property whose value
  is \<open>undefined\<close> is left out.
\<close>

fun stringify_value :: "env \<Rightarrow> jsval \<Rightarrow> jsstring" where
  "stringify_value e JUndefined = js ''null''"
| "stringify_value e JNull = js ''null''"
| "stringify_value e (JBool b) = (if b then js ''true'' else js ''false'')"
| "stringify_value e (JNum n) = (case n of Fin a \<Rightarrow> numberToString e a | _ \<Rightarrow> js ''null'')"
| "stringify_value e (JStr s) = QuoteJSONString s"
| "stringify_value e (JArr xs) = js ''['' @ join (js '','') (map (stringify_value e) xs) @ js '']''"
| "stringify_value e (JObj kvs) =
     js ''{'' @
     join (js '','')
       (map (\<lambda>(k, v). QuoteJSONString k @ js '':'' @ stringify_value e v)
          (filter (\<lambda>(k, v). v \<noteq> JUndefined) kvs)) @
     js ''}''"

text \<open>\<open>JSON.stringify(v)\<close>; \<open>None\<close> is the result \<open>undefined\<close>.\<close>

definition JSON_stringify :: "env \<Rightarrow> jsval \<Rightarrow> jsstring option" where
  "JSON_stringify e v = (if v = JUndefined then None else Some (stringify_value e v))"


section \<open>lit-framework.js\<close>

subsection \<open>TemporalSignature\<close>

text \<open>
  An interaction's \<open>impact\<close> is a number: \<open>interact\<close>, \<open>transform\<close> and \<open>relate\<close> are the
  only callers of \<open>record\<close> in the program.
\<close>

record interaction =
  i_timestamp :: int
  i_type :: jsstring
  i_impact :: jsnum

record TemporalSignature =
  createdAt :: int
  lastModified :: int
  interactions :: "interaction list"
  persistence :: jsnum

definition TemporalSignature_new :: "env \<Rightarrow> TemporalSignature \<times> env" where
  "TemporalSignature_new e =
     (let (t1, e1) = Date_now e;
          (t2, e2) = Date_now e1
      in (\<lparr>createdAt = t1, lastModified = t2, interactions = [], persistence = Fin 0\<rparr>, e2))"

definition updatePersistence :: "TemporalSignature \<Rightarrow> env \<Rightarrow> TemporalSignature \<times> env" where
  "updatePersistence ts e =
     (let (now, e1) = Date_now e;
          age = Fin (real_of_int (now - createdAt ts));
          interactionDensity =
            jdiv (Fin (real (length (interactions ts)))) (jdiv age (Fin 1000))
      in (ts\<lparr>persistence := jmul (Math_log (jadd (Fin 1) age))
                                  (jadd (Fin 1) interactionDensity)\<rparr>, e1))"

text \<open>\<open>record(interaction)\<close>, with the interaction's \<open>type\<close> and \<open>impact\<close> as arguments.\<close>

definition ts_record ::
  "jsstring \<Rightarrow> jsnum \<Rightarrow> TemporalSignature \<Rightarrow> env \<Rightarrow> TemporalSignature \<times> env" where
  "ts_record ty impact ts e =
     (let (t1, e1) = Date_now e;
          ts1 = ts\<lparr>interactions :=
                     interactions ts @ [\<lparr>i_timestamp = t1, i_type = ty, i_impact = impact\<rparr>]\<rparr>;
          (t2, e2) = Date_now e1;
          ts2 = ts1\<lparr>lastModified := t2\<rparr>
      in updatePersistence ts2 e2)"

definition halfLife :: "TemporalSignature \<Rightarrow> jsnum" where
  "halfLife ts =
     (let baseDecay = Fin 86400000;
          interactionBonus =
            foldl (\<lambda>sum i. jadd sum (if truthy (JNum (i_impact i)) then i_impact i else Fin 0))
              (Fin 0) (interactions ts)
      in jmul baseDecay (jadd (Fin 1) interactionBonus))"

definition temporalValue :: "TemporalSignature \<Rightarrow> env \<Rightarrow> jsnum \<times> env" where
  "temporalValue ts e =
     (let (now, e1) = Date_now e;
          age = Fin (real_of_int (now - createdAt ts));
          decay = Math_exp (jdiv (jneg age) (halfLife ts))
      in (jmul (persistence ts) decay, e1))"

subsection \<open>AgentSystem\<close>

text \<open>
  A capability object. \<open>cap_uses\<close> is \<open>None\<close> while the object has no \<open>uses\<close> property:
  \<open>defineCapability\<close> creates it with \<open>uses: 0\<close>, a capability handed to the constructor
  has the properties its caller gave it.
\<close>

record capability =
  cap_name :: jsstring
  cap_handler :: handler
  cap_uses :: "jsnum option"

record AgentSystem =
  capabilities :: "capability list"
  autonomy :: jsnum
  intentionality :: jsnum
  effectivity :: jsnum

definition AgentSystem_new :: "capability list \<Rightarrow> AgentSystem" where
  "AgentSystem_new caps =
     \<lparr>capabilities = caps, autonomy = Fin 0, intentionality = Fin 0, effectivity = Fin 0\<rparr>"

text \<open>The number \<open>c.uses\<close> stands for in arithmetic: \<open>undefined\<close> converts to \<open>NaN\<close>.\<close>

definition uses_number :: "capability \<Rightarrow> jsnum" where
  "uses_number c = (case cap_uses c of None \<Rightarrow> NaN | Some n \<Rightarrow> n)"

definition calculateAgency :: "AgentSystem \<Rightarrow> AgentSystem" where
  "calculateAgency a =
     (let caps = capabilities a;
          autonomy' = Math_min (Fin 1) (jdiv (Fin (real (length caps))) (Fin 10));
          totalUses = foldl (\<lambda>sum c. jadd sum (uses_number c)) (Fin 0) caps;
          intentionality' =
            Math_min (Fin 1) (jdiv (Math_log (jadd (Fin 1) totalUses)) (Fin 5));
          activeCapabilities = length (filter (\<lambda>c. jlt (Fin 0) (uses_number c)) caps);
          effectivity' =
            jdiv (Fin (real activeCapabilities))
                 (Math_max (Fin 1) (Fin (real (length caps))))
      in a\<lparr>autonomy := autonomy', intentionality := intentionality',
            effectivity := effectivity'\<rparr>)"


text \<open>\<open>capability.uses++\<close>.\<close>

definition increment_uses :: "capability \<Rightarrow> capability" where
  "increment_uses c = c\<lparr>cap_uses := Some (jadd (uses_number c) (Fin 1))\<rparr>"

text \<open>
  \<open>executeCapability\<close> returns the handler's result or the error raised, with the agent
  system as the call leaves it. \<open>List.extract\<close> splits the array at the first capability
  of that name, the one \<open>find\<close> returns.
\<close>

definition executeCapability ::
  "jsstring \<Rightarrow> jsval \<Rightarrow> AgentSystem \<Rightarrow> env \<Rightarrow> ((error + jsval) \<times> AgentSystem) \<times> env" where
  "executeCapability name context a e =
     (case List.extract (\<lambda>c. cap_name c = name) (capabilities a) of
        None \<Rightarrow> ((Inl (CapabilityNotFound name), a), e)
      | Some (before, capability, after) \<Rightarrow>
          (let a1 = a\<lparr>capabilities := before @ [increment_uses capability] @ after\<rparr>;
               (result, e1) = cap_handler capability context e
           in case result of
                Inl err \<Rightarrow> ((Inl err, a1), e1)
              | Inr r \<Rightarrow> ((Inr r, calculateAgency a1), e1)))"

definition agencyScore :: "AgentSystem \<Rightarrow> jsnum" where
  "agencyScore a =
     jdiv (jadd (jadd (autonomy a) (intentionality a)) (effectivity a)) (Fin 3)"

subsection \<open>CoherenceField\<close>

record CoherenceField =
  cf_content :: jsval
  consistency :: jsnum
  resonance :: jsnum
  entropy :: jsnum

definition measureConsistency :: "jsval \<Rightarrow> jsnum" where
  "measureConsistency content =
     (if typeof content = js ''string'' then
        (case content of
           JStr s \<Rightarrow>
             (let words = split_ws s;
                  uniqueWords = remdups words
              in Math_min (Fin 1)
                   (jdiv (Fin (real (length uniqueWords))) (Fin (real (length words)))))
         | _ \<Rightarrow> Fin 0.5)
      else if typeof content = js ''object'' \<and> content \<noteq> JNull then
        (let keys = Object_keys content;
             definedValues =
               filter (\<lambda>k. get_own content k \<noteq> JUndefined \<and> get_own content k \<noteq> JNull) keys
         in jdiv (Fin (real (length definedValues)))
                 (Math_max (Fin 1) (Fin (real (length keys)))))
      else Fin 0.5)"

definition measureResonance :: "jsval \<Rightarrow> error + jsnum" where
  "measureResonance content =
     (if nullish content then Inl TypeError
      else
        (let hasMetadata = (if truthy (get_prop content (js ''metadata'')) then Fin 0.2 else Fin 0);
             hasIdentity = (if truthy (get_prop content (js ''id'')) then Fin 0.2 else Fin 0);
             hasRelations = (if truthy (get_prop content (js ''relations'')) then Fin 0.2 else Fin 0);
             hasValue = (if get_prop content (js ''value'') \<noteq> JUndefined then Fin 0.2 else Fin 0);
             isPersistent = (if truthy (get_prop content (js ''persistent'')) then Fin 0.2 else Fin 0)
         in Inr (foldl jadd (Fin 0)
                   [hasMetadata, hasIdentity, hasRelations, hasValue, isPersistent])))"

text \<open>
  \<open>charFreq\<close> holds one count for each distinct character of the text; the sum that
  follows does not depend on the order of the counts.
\<close>

definition measureEntropy :: "env \<Rightarrow> jsval \<Rightarrow> error + jsnum" where
  "measureEntropy e content =
     (case JSON_stringify e content of
        None \<Rightarrow> Inl TypeError
      | Some contentStr \<Rightarrow>
          (let chars = code_points contentStr;
               charFreq = map (\<lambda>c. count_list chars c) (remdups chars);
               total = Fin (real (length contentStr));
               entropy' =
                 foldl (\<lambda>entropy count.
                          (let probability = jdiv (Fin (real count)) total
                           in jsub entropy (jmul probability (Math_log2 probability))))
                   (Fin 0) charFreq
           in Inr (Math_min (Fin 1) (jdiv entropy' (Fin 8)))))"

text \<open>The constructor, with \<open>analyze\<close>; it throws when a measurement does.\<close>

definition CoherenceField_new :: "env \<Rightarrow> jsval \<Rightarrow> error + CoherenceField" where
  "CoherenceField_new e content =
     (let consistency' = measureConsistency content
      in case measureResonance content of
           Inl err \<Rightarrow> Inl err
         | Inr resonance' \<Rightarrow>
             (case measureEntropy e content of
                Inl err \<Rightarrow> Inl err
              | Inr entropy' \<Rightarrow>
                  Inr \<lparr>cf_content = content, consistency = consistency',
                       resonance = resonance', entropy = entropy'\<rparr>))"

definition coherenceScore :: "CoherenceField \<Rightarrow> jsnum" where
  "coherenceScore cf =
     (let optimalEntropy = jsub (Fin 1) (Math_abs (jsub (Fin 0.6) (entropy cf)))
      in jadd (jadd (jmul (consistency cf) (Fin 0.4)) (jmul (resonance cf) (Fin 0.4)))
              (jmul optimalEntropy (Fin 0.2)))"


subsection \<open>LIT\<close>

record relation =
  targetId :: jsstring
  rel_type :: jsstring
  establishedAt :: "int option"

record LIT =
  lit_id :: jsstring
  lit_type :: jsstring
  version :: jsstring
  content :: jsval
  metadata :: jsval
  coherenceField :: CoherenceField
  agentSystem :: AgentSystem
  temporalSignature :: TemporalSignature
  relations :: "relation list"
  state :: jsstring

text \<open>
  The configuration object of the constructor. \<open>id\<close>, \<open>type\<close> and \<open>version\<close> are
  strings, \<open>capabilities\<close> and \<open>relations\<close> arrays; \<open>None\<close> is an absent property.
\<close>

record config =
  cfg_id :: "jsstring option"
  cfg_type :: "jsstring option"
  cfg_version :: "jsstring option"
  cfg_content :: jsval
  cfg_metadata :: jsval
  cfg_capabilities :: "capability list option"
  cfg_relations :: "relation list option"

text \<open>\<open>s || d\<close> for an optional string: the empty string is falsy.\<close>

definition string_or :: "jsstring option \<Rightarrow> jsstring \<Rightarrow> jsstring" where
  "string_or s d = (case s of None \<Rightarrow> d | Some x \<Rightarrow> if x \<noteq> [] then x else d)"

definition generateId :: "env \<Rightarrow> jsstring \<times> env" where
  "generateId e =
     (let (now, e1) = Date_now e;
          timestamp = numberToString36 e1 (real_of_int now);
          (r, e2) = Math_random e1;
          random' = take 7 (drop 2 (numberToString36 e2 r))
      in (js ''LIT-'' @ timestamp @ js ''-'' @ random', e2))"

definition calculateValue :: "LIT \<Rightarrow> env \<Rightarrow> jsnum \<times> env" where
  "calculateValue lit e =
     (let coherence = coherenceScore (coherenceField lit);
          agency = agencyScore (agentSystem lit);
          (temporal, e1) = temporalValue (temporalSignature lit) e;
          baseValue =
            jadd (jadd (jmul coherence (Fin 0.4)) (jmul agency (Fin 0.35)))
                 (jmul temporal (Fin 0.25));
          networkBonus =
            jdiv (Math_log (jadd (Fin 1) (Fin (real (length (relations lit)))))) (Fin 5)
      in (Math_min (Fin 1) (jmul baseValue (jadd (Fin 1) networkBonus)), e1))"

definition updateState :: "LIT \<Rightarrow> env \<Rightarrow> LIT \<times> env" where
  "updateState lit e =
     (let (v, e1) = calculateValue lit e
      in (if jlt v (Fin 0.2) then lit\<lparr>state := js ''decaying''\<rparr>
          else if jlt v (Fin 0.4) then lit\<lparr>state := js ''nascent''\<rparr>
          else if jlt v (Fin 0.6) then lit\<lparr>state := js ''stable''\<rparr>
          else if jlt v (Fin 0.8) then lit\<lparr>state := js ''resonant''\<rparr>
          else lit\<lparr>state := js ''transcendent''\<rparr>, e1))"

definition LIT_new :: "config \<Rightarrow> env \<Rightarrow> (error + LIT) \<times> env" where
  "LIT_new cfg e =
     (let (id', e1) =
            (case cfg_id cfg of
               None \<Rightarrow> generateId e
             | Some x \<Rightarrow> if x \<noteq> [] then (x, e) else generateId e);
          type' = string_or (cfg_type cfg) (js ''generic'');
          version' = string_or (cfg_version cfg) (js ''1.0.0'');
          content' = or_else (cfg_content cfg) (JObj []);
          metadata' = or_else (cfg_metadata cfg) (JObj [])
      in case CoherenceField_new e1 content' of
           Inl err \<Rightarrow> (Inl err, e1)
         | Inr cf \<Rightarrow>
             (let agent = AgentSystem_new (case cfg_capabilities cfg of None \<Rightarrow> [] | Some cs \<Rightarrow> cs);
                  (ts, e2) = TemporalSignature_new e1;
                  rels = (case cfg_relations cfg of None \<Rightarrow> [] | Some rs \<Rightarrow> rs);
                  (lit, e3) =
                    updateState
                      \<lparr>lit_id = id', lit_type = type', version = version',
                       content = content', metadata = metadata', coherenceField = cf,
                       agentSystem = agent, temporalSignature = ts, relations = rels,
                       state = js ''nascent''\<rparr> e2
              in (Inr lit, e3)))"

text \<open>
  \<open>interact(type, data)\<close>. \<open>data\<close> is \<open>null\<close> or \<open>undefined\<close> (\<open>NoData\<close>: also a call
  that leaves the argument out), or a value modelled by its \<open>impact\<close> property, a number
  or absent (\<open>None\<close>). Reading \<open>data.impact\<close> of \<open>null\<close> or \<open>undefined\<close> throws a
  \<open>TypeError\<close> before anything is recorded. The object returned carries \<open>data\<close> back.
\<close>

datatype interact_data = NoData | Data "jsnum option"

record interact_result =
  litId :: jsstring
  r_type :: jsstring
  result :: "jsnum option"
  newValue :: jsnum

definition interact ::
  "jsstring \<Rightarrow> interact_data \<Rightarrow> LIT \<Rightarrow> env \<Rightarrow> (error + interact_result) \<times> LIT \<times> env" where
  "interact ty data lit e =
     (case data of
        NoData \<Rightarrow> (Inl TypeError, lit, e)
      | Data d \<Rightarrow>
          (let impact =
                 (case d of
                    None \<Rightarrow> Fin 0.1
                  | Some n \<Rightarrow> if truthy (JNum n) then n else Fin 0.1);
               (ts, e1) = ts_record ty impact (temporalSignature lit) e;
               (lit1, e2) = updateState (lit\<lparr>temporalSignature := ts\<rparr>) e1;
               (v, e3) = calculateValue lit1 e2
           in (Inr \<lparr>litId = lit_id lit1, r_type = ty, result = d, newValue = v\<rparr>, lit1, e3)))"

text \<open>
  \<open>transform(transformFn)\<close> returns the error raised, if any, and the LIT as the call
  leaves it. The callback is a function of the caller, as a capability's handler is: it
  returns the new content or throws, and may read the clock. When it throws, nothing
  has been stored; when the coherence field of the new content cannot be built, the
  new content has been stored already.
\<close>

definition transform :: "handler \<Rightarrow> LIT \<Rightarrow> env \<Rightarrow> error option \<times> LIT \<times> env" where
  "transform transformFn lit e =
     (case transformFn (content lit) e of
        (Inl err, e0) \<Rightarrow> (Some err, lit, e0)
      | (Inr newContent, e0) \<Rightarrow>
          (let lit1 = lit\<lparr>content := newContent\<rparr>
           in case CoherenceField_new e0 newContent of
                Inl err \<Rightarrow> (Some err, lit1, e0)
              | Inr cf \<Rightarrow>
                  (let lit2 = lit1\<lparr>coherenceField := cf\<rparr>;
                       (ts, e1) =
                         ts_record (js ''transform'') (Fin 0.5) (temporalSignature lit2) e0;
                       (lit3, e2) = updateState (lit2\<lparr>temporalSignature := ts\<rparr>) e1
                   in (None, lit3, e2))))"

text \<open>
  \<open>relate(otherLit, relationType)\<close> reads the other LIT's \<open>id\<close> only: \<open>otherLit\<close> is
  modelled by its \<open>id\<close>, and is \<open>None\<close> when it is \<open>null\<close> or \<open>undefined\<close> (what \<open>find\<close>
  returns for an unknown identifier). Reading \<open>otherLit.id\<close> then throws a \<open>TypeError\<close>,
  before the clock is read and before the relation is pushed.
\<close>

definition relate ::
  "jsstring option \<Rightarrow> jsstring \<Rightarrow> LIT \<Rightarrow> env \<Rightarrow> error option \<times> LIT \<times> env" where
  "relate otherLit relationType lit e =
     (case otherLit of
        None \<Rightarrow> (Some TypeError, lit, e)
      | Some otherId \<Rightarrow>
          (let (now, e1) = Date_now e;
               lit1 = lit\<lparr>relations :=
                            relations lit @
                            [\<lparr>targetId = otherId, rel_type = relationType,
                              establishedAt = Some now\<rparr>]\<rparr>;
               (ts, e2) = ts_record (js ''relate'') (Fin 0.3) (temporalSignature lit1) e1
           in (None, lit1\<lparr>temporalSignature := ts\<rparr>, e2)))"




subsection \<open>LITComposer\<close>

text \<open>
  LITs are objects: the registry, the caller and the fusion engine hold references to
  the same LIT and see each other's updates. The heap is the list of all LITs created
  so far, and a reference is an index into it. The registry is a \<open>Map\<close> from identifier
  to LIT, in insertion order; \<open>AList.update\<close> is \<open>Map.prototype.set\<close>.
\<close>

type_synonym heap = "LIT list"

record LITComposer =
  registry :: "(jsstring \<times> nat) list"

definition LITComposer_new :: LITComposer where
  "LITComposer_new = \<lparr>registry = []\<rparr>"

definition compose ::
  "config \<Rightarrow> LITComposer \<Rightarrow> heap \<Rightarrow> env \<Rightarrow> (error + nat) \<times> LITComposer \<times> heap \<times> env" where
  "compose cfg c h e =
     (case LIT_new cfg e of
        (Inl err, e1) \<Rightarrow> (Inl err, c, h, e1)
      | (Inr lit, e1) \<Rightarrow>
          (Inr (length h),
           c\<lparr>registry := AList.update (lit_id lit) (length h) (registry c)\<rparr>,
           h @ [lit], e1))"

definition find :: "LITComposer \<Rightarrow> jsstring \<Rightarrow> nat option" where
  "find c id' = map_of (registry c) id'"

definition getAllLITs :: "LITComposer \<Rightarrow> nat list" where
  "getAllLITs c = map snd (registry c)"

definition findByType :: "LITComposer \<Rightarrow> heap \<Rightarrow> jsstring \<Rightarrow> nat list" where
  "findByType c h ty = filter (\<lambda>lit. lit_type (h ! lit) = ty) (getAllLITs c)"

text \<open>
  \<open>network(lits, relationType)\<close>: the loop over \<open>i\<close>, on the references from \<open>lits[i]\<close>
  on. An entry of \<open>lits\<close> is a reference, or \<open>None\<close> for \<open>undefined\<close> (what \<open>find\<close> returns
  for an unknown identifier): calling \<open>relate\<close> on it throws a \<open>TypeError\<close>, and so does
  \<open>relate\<close> when it is the entry passed. The relations added before the error stay.
\<close>

fun network ::
  "nat option list \<Rightarrow> jsstring \<Rightarrow> heap \<Rightarrow> env \<Rightarrow> error option \<times> heap \<times> env" where
  "network (Some a # b # rest) relationType h e =
     (case relate (map_option (\<lambda>other. lit_id (h ! other)) b) relationType (h ! a) e of
        (Some err, lit, e1) \<Rightarrow> (Some err, h[a := lit], e1)
      | (None, lit, e1) \<Rightarrow> network (b # rest) relationType (h[a := lit]) e1)"
| "network (None # b # rest) relationType h e = (Some TypeError, h, e)"
| "network lits relationType h e = (None, h, e)"

text \<open>\<open>reduce((sum, x) => sum + f(x), acc)\<close> where \<open>f\<close> reads the clock.\<close>

fun sum_with :: "('a \<Rightarrow> env \<Rightarrow> jsnum \<times> env) \<Rightarrow> jsnum \<Rightarrow> 'a list \<Rightarrow> env \<Rightarrow> jsnum \<times> env" where
  "sum_with f acc [] e = (acc, e)"
| "sum_with f acc (x # xs) e = (let (v, e1) = f x e in sum_with f (jadd acc v) xs e1)"

definition measureNetworkCoherence :: "LITComposer \<Rightarrow> heap \<Rightarrow> env \<Rightarrow> jsnum \<times> env" where
  "measureNetworkCoherence c h e =
     (let lits = getAllLITs c
      in if length lits = 0 then (Fin 0, e)
         else (let (totalValue, e1) = sum_with (\<lambda>lit. calculateValue (h ! lit)) (Fin 0) lits e
               in (jdiv totalValue (Fin (real (length lits))), e1)))"


section \<open>xenial-fusion.js\<close>

subsection \<open>FusionPattern\<close>

text \<open>
  The fusion logic of a pattern computes a configuration and has the composer of the
  engine build the fused LIT from it, as the four default patterns do: the logic is
  modelled by the configuration it computes (or the error it raises) from the LITs
  it is given, and \<open>fuse\<close> passes that configuration to \<open>compose\<close>.
\<close>

type_synonym fusionLogic = "LIT list \<Rightarrow> env \<Rightarrow> (error + config) \<times> env"

record FusionPattern =
  fp_name :: jsstring
  fp_description :: jsstring
  fusionLogic :: fusionLogic
  resonanceThreshold :: jsnum
  usageCount :: nat

definition FusionPattern_new :: "jsstring \<Rightarrow> jsstring \<Rightarrow> fusionLogic \<Rightarrow> FusionPattern" where
  "FusionPattern_new name description logic =
     \<lparr>fp_name = name, fp_description = description, fusionLogic = logic,
      resonanceThreshold = Fin 0.3, usageCount = 0\<rparr>"

definition canFuse :: "FusionPattern \<Rightarrow> LIT list \<Rightarrow> bool" where
  "canFuse p lits =
     (if length lits < 2 then False
      else
        (let avgCoherence =
               jdiv (foldl (\<lambda>sum lit. jadd sum (coherenceScore (coherenceField lit))) (Fin 0) lits)
                    (Fin (real (length lits)))
         in jge avgCoherence (resonanceThreshold p)))"

subsection \<open>EmergenceMetrics\<close>

record EmergenceMetrics =
  novelty :: jsnum
  synergy :: jsnum
  stability :: jsnum
  em_resonance :: jsnum

definition calculateVariance :: "jsnum list \<Rightarrow> jsnum" where
  "calculateVariance values =
     (let n = Fin (real (length values));
          mean = jdiv (foldl jadd (Fin 0) values) n;
          squaredDiffs = map (\<lambda>val. Math_pow2 (jsub val mean)) values
      in jdiv (foldl jadd (Fin 0) squaredDiffs) n)"

text \<open>
  \<open>calculate\<close> takes \<open>JSON.stringify(lit.content).length\<close> of every input and of the
  fused LIT first: a content that is \<open>undefined\<close> has no text, and reading the length
  throws a \<open>TypeError\<close>.
\<close>

definition EmergenceMetrics_calculate ::
  "LIT list \<Rightarrow> LIT \<Rightarrow> env \<Rightarrow> (error + EmergenceMetrics) \<times> env" where
  "EmergenceMetrics_calculate inputLITs fusedLIT e =
     (if list_ex (\<lambda>lit. content lit = JUndefined) inputLITs \<or> content fusedLIT = JUndefined
      then (Inl TypeError, e)
      else
        (let n = Fin (real (length inputLITs));
             inputComplexity =
               jdiv (foldl (\<lambda>sum lit. jadd sum (Fin (real (length (stringify_value e (content lit))))))
                       (Fin 0) inputLITs) n;
             outputComplexity = Fin (real (length (stringify_value e (content fusedLIT))));
             novelty' =
               Math_min (Fin 1)
                 (jdiv (Math_abs (jsub outputComplexity inputComplexity)) inputComplexity);
             (total, e1) = sum_with calculateValue (Fin 0) inputLITs e;
             inputValue = jdiv total n;
             (outputValue, e2) = calculateValue fusedLIT e1;
             synergy' =
               Math_max (Fin 0)
                 (jdiv (jsub outputValue inputValue) (Math_max (Fin 0.1) inputValue));
             stability' = coherenceScore (coherenceField fusedLIT);
             coherenceVariance =
               calculateVariance (map (\<lambda>lit. coherenceScore (coherenceField lit)) inputLITs);
             resonance' = jsub (Fin 1) (Math_min (Fin 1) coherenceVariance)
         in (Inr \<lparr>novelty = novelty', synergy = synergy', stability = stability',
                  em_resonance = resonance'\<rparr>, e2)))"

definition emergenceScore :: "EmergenceMetrics \<Rightarrow> jsnum" where
  "emergenceScore m =
     jadd (jadd (jadd (jmul (novelty m) (Fin 0.25)) (jmul (synergy m) (Fin 0.35)))
                (jmul (stability m) (Fin 0.25)))
          (jmul (em_resonance m) (Fin 0.15))"

subsection \<open>The four default patterns\<close>

text \<open>
  Each logic reads properties of \<open>lit.content\<close> for every LIT it is given, which throws
  a \<open>TypeError\<close> on a content that is \<open>null\<close> or \<open>undefined\<close>; Xenial Transcendence
  reads none. \<open>new Date()\<close> reads the clock as \<open>Date.now()\<close> does.
\<close>

definition sourceIDs_of :: "LIT list \<Rightarrow> jsval" where
  "sourceIDs_of lits = JArr (map (\<lambda>l. JStr (lit_id l)) lits)"

definition harmonicSynthesis :: fusionLogic where
  "harmonicSynthesis lits e =
     (if list_ex (\<lambda>lit. nullish (content lit)) lits then (Inl TypeError, e)
      else
        (let combinedKnowledge =
               Array_join e [0x20, 0x2295, 0x20]
                 (map (\<lambda>lit. or_else (or_else (get_prop (content lit) (js ''knowledge''))
                                               (get_prop (content lit) (js ''description'')))
                                      (JStr [])) lits);
             topics =
               map (\<lambda>lit. or_else (or_else (get_prop (content lit) (js ''topic''))
                                            (get_prop (content lit) (js ''name'')))
                             (JStr (js ''concept''))) lits;
             (t1, e1) = Date_now e;
             (t2, e2) = Date_now e1;
             (t3, e3) = Date_now e2
         in (Inr \<lparr>cfg_id = None,
                  cfg_type = Some (js ''synthesis''),
                  cfg_version = None,
                  cfg_content = JObj
                    [(js ''fusionType'', JStr (js ''harmonic-synthesis'')),
                     (js ''sourceTopics'', JArr topics),
                     (js ''synthesizedKnowledge'', JStr combinedKnowledge),
                     (js ''id'', JStr (js ''synthesis-'' @ numberToString e (real_of_int t1))),
                     (js ''persistent'', JBool True),
                     (js ''value'', JNum (Fin 1)),
                     (js ''metadata'', JObj
                        [(js ''sourceCount'', JNum (Fin (real (length lits)))),
                         (js ''fusedAt'', JStr (toISOString e t2))])],
                  cfg_metadata = JObj
                    [(js ''domain'', JStr (js ''emergent-epistemology'')),
                     (js ''created'', JStr (toISOString e t3)),
                     (js ''fusionPattern'', JStr (js ''Harmonic Synthesis'')),
                     (js ''sourceIDs'', sourceIDs_of lits)],
                  cfg_capabilities = None,
                  cfg_relations = Some
                    (map (\<lambda>lit. \<lparr>targetId = lit_id lit, rel_type = js ''fused-from'',
                                  establishedAt = None\<rparr>) lits)\<rparr>, e3)))"

text \<open>\<open>[...v]\<close> for a truthy value: an array or a string is iterable, nothing else is.\<close>

definition spread :: "jsval \<Rightarrow> error + jsval list" where
  "spread v =
     (case v of
        JArr xs \<Rightarrow> Inr xs
      | JStr s \<Rightarrow> Inr (map JStr (code_points s))
      | _ \<Rightarrow> Inl TypeError)"

definition processualIntegration :: fusionLogic where
  "processualIntegration lits e =
     (if list_ex (\<lambda>lit. nullish (content lit)) lits then (Inl TypeError, e)
      else
        (let processes =
               filter (\<lambda>lit. lit_type lit = js ''process'' \<or>
                             truthy (get_prop (content lit) (js ''steps''))) lits;
             knowledge =
               filter (\<lambda>lit. lit_type lit = js ''knowledge'' \<or>
                             truthy (get_prop (content lit) (js ''knowledge''))) lits;
             steps =
               (if 0 < length processes \<and>
                   truthy (get_prop (content (hd processes)) (js ''steps''))
                then spread (get_prop (content (hd processes)) (js ''steps''))
                else Inr [JStr (js ''Integrate''), JStr (js ''Process''), JStr (js ''Transform'')])
         in case steps of
              Inl err \<Rightarrow> (Inl err, e)
            | Inr steps' \<Rightarrow>
                (let enrichedSteps =
                       map (\<lambda>(step, i).
                              (let topic =
                                     (if knowledge = [] then JUndefined
                                      else get_prop (content (knowledge ! (i mod length knowledge)))
                                             (js ''topic''))
                               in ToString e step @ js '' [informed by: '' @
                                  ToString e (or_else topic (JStr (js ''context''))) @ js '']''))
                         (zip steps' [0..<length steps']);
                     (t1, e1) = Date_now e;
                     (t2, e2) = Date_now e1
                 in (Inr \<lparr>cfg_id = None,
                          cfg_type = Some (js ''informed-process''),
                          cfg_version = None,
                          cfg_content = JObj
                            [(js ''fusionType'', JStr (js ''processual-integration'')),
                             (js ''name'', JStr (js ''Informed Process'')),
                             (js ''steps'', JArr (map JStr enrichedSteps)),
                             (js ''currentStep'', JNum (Fin 0)),
                             (js ''knowledgeContext'', JArr (map content knowledge)),
                             (js ''id'', JStr (js ''informed-process-'' @
                                               numberToString e (real_of_int t1))),
                             (js ''persistent'', JBool True)],
                          cfg_metadata = JObj
                            [(js ''domain'', JStr (js ''agential-procedural'')),
                             (js ''created'', JStr (toISOString e t2)),
                             (js ''fusionPattern'', JStr (js ''Processual Integration'')),
                             (js ''sourceIDs'', sourceIDs_of lits)],
                          cfg_capabilities = None,
                          cfg_relations = None\<rparr>, e2))))"

text \<open>
  The handler of \<open>generate_emergent\<close>. Its \<open>push\<close> onto \<open>lit.content.outputs\<close> is kept as
  the check that \<open>outputs\<close> is an array; the update of that array is not modelled, the
  context being a value.
\<close>

definition generate_emergent :: handler where
  "generate_emergent context e =
     (if nullish context then (Inl TypeError, e)
      else
        (let lit = get_prop context (js ''lit'');
             (t1, e1) = Date_now e;
             (t2, e2) = Date_now e1
         in if nullish lit \<or> nullish (get_prop lit (js ''content'')) then (Inl TypeError, e2)
            else
              (let content' = get_prop lit (js ''content'');
                   (r, e3) = Math_random e2;
                   emergentOutput = JObj
                     [(js ''id'', JStr (js ''emergent-'' @ numberToString e (real_of_int t1))),
                      (js ''timestamp'', JNum (Fin (real_of_int t2))),
                      (js ''content'', JStr ([0x2727] @ js '' Emergent '' @
                         ToString e (get_prop content' (js ''medium'')) @ [0x20, 0x2727])),
                      (js ''noveltyScore'', JNum (Fin (0.7 + r * 0.3))),
                      (js ''fusionSignature'', get_prop content' (js ''sourceLITs''))]
               in case get_prop content' (js ''outputs'') of
                    JArr xs \<Rightarrow> (Inr emergentOutput, e3)
                  | _ \<Rightarrow> (Inl TypeError, e3))))"

definition creativeAmplification :: fusionLogic where
  "creativeAmplification lits e =
     (if list_ex (\<lambda>lit. nullish (content lit)) lits then (Inl TypeError, e)
      else
        (let mediums =
               map (\<lambda>lit. or_else (or_else (get_prop (content lit) (js ''medium''))
                                            (get_prop (content lit) (js ''name'')))
                             (JStr (js ''pattern''))) lits;
             fusedMedium = Array_join e [0x20, 0xD7, 0x20] mediums;
             (t1, e1) = Date_now e;
             (t2, e2) = Date_now e1
         in (Inr \<lparr>cfg_id = None,
                  cfg_type = Some (js ''emergent-creative''),
                  cfg_version = None,
                  cfg_content = JObj
                    [(js ''fusionType'', JStr (js ''creative-amplification'')),
                     (js ''medium'', JStr fusedMedium),
                     (js ''description'', JStr (js ''Emergent fusion of: '' @
                                                Array_join e (js '', '') mediums)),
                     (js ''outputs'', JArr []),
                     (js ''sourceLITs'', sourceIDs_of lits),
                     (js ''parameters'', JObj
                        [(js ''complexity'', JNum (Fin 0.8)),
                         (js ''novelty'', JNum (Fin 0.9)),
                         (js ''fusion_power'', JNum (Fin (real (length lits))))]),
                     (js ''id'', JStr (js ''emergent-creative-'' @
                                       numberToString e (real_of_int t1))),
                     (js ''persistent'', JBool True),
                     (js ''value'', JNum (Fin 0))],
                  cfg_metadata = JObj
                    [(js ''domain'', JStr (js ''emergent-generative'')),
                     (js ''created'', JStr (toISOString e t2)),
                     (js ''fusionPattern'', JStr (js ''Creative Amplification'')),
                     (js ''sourceIDs'', sourceIDs_of lits)],
                  cfg_capabilities = Some
                    [\<lparr>cap_name = js ''generate_emergent'', cap_handler = generate_emergent,
                      cap_uses = None\<rparr>],
                  cfg_relations = None\<rparr>, e2)))"

definition resonate :: handler where
  "resonate context e =
     (let (r, e1) = Math_random e
      in (Inr (JObj [(js ''resonance'', JStr (js ''xenial'')),
                     (js ''pattern'', JStr (js ''transcendent'')),
                     (js ''harmonic'', JNum (Fin (r * 0.5 + 0.5)))]), e1))"

text \<open>\<open>map\<close> with a function that reads the clock.\<close>

fun map_with :: "('a \<Rightarrow> env \<Rightarrow> 'b \<times> env) \<Rightarrow> 'a list \<Rightarrow> env \<Rightarrow> 'b list \<times> env" where
  "map_with f [] e = ([], e)"
| "map_with f (x # xs) e =
     (let (y, e1) = f x e; (ys, e2) = map_with f xs e1 in (y # ys, e2))"

definition xenialTranscendence :: fusionLogic where
  "xenialTranscendence lits e =
     (let (total, e1) = sum_with calculateValue (Fin 0) lits e;
          avgValue = jdiv total (Fin (real (length lits)));
          totalAgency = foldl (\<lambda>sum lit. jadd sum (agencyScore (agentSystem lit))) (Fin 0) lits;
          (constituents, e2) =
            map_with (\<lambda>l env'.
                        (let (v, env'') = calculateValue l env'
                         in (JObj [(js ''id'', JStr (lit_id l)),
                                   (js ''type'', JStr (lit_type l)),
                                   (js ''contribution'', JNum v)], env''))) lits e1;
          (t1, e3) = Date_now e2;
          (t2, e4) = Date_now e3
      in (Inr \<lparr>cfg_id = None,
               cfg_type = Some (js ''xenial-transcendence''),
               cfg_version = None,
               cfg_content = JObj
                 [(js ''fusionType'', JStr (js ''xenial-transcendence'')),
                  (js ''name'', JStr (js ''Transcendent Pattern'')),
                  (js ''description'', JStr
                     (js ''A higher-order coherent structure that transcends its components'')),
                  (js ''constituents'', JArr constituents),
                  (js ''transcendenceLevel'', JNum (jmul avgValue (Fin 1.5))),
                  (js ''collectiveAgency'', JNum totalAgency),
                  (js ''id'', JStr (js ''transcendent-'' @ numberToString e (real_of_int t1))),
                  (js ''persistent'', JBool True),
                  (js ''value'', JNum (jmul avgValue (Fin 1.5))),
                  (js ''metadata'', JObj
                     [(js ''constituentCount'', JNum (Fin (real (length lits)))),
                      (js ''emergence'', JStr (js ''xenial''))])],
               cfg_metadata = JObj
                 [(js ''domain'', JStr (js ''transcendent'')),
                  (js ''created'', JStr (toISOString e t2)),
                  (js ''fusionPattern'', JStr (js ''Xenial Transcendence'')),
                  (js ''sourceIDs'', sourceIDs_of lits)],
               cfg_capabilities = Some
                 [\<lparr>cap_name = js ''resonate'', cap_handler = resonate, cap_uses = None\<rparr>],
               cfg_relations = None\<rparr>, e4))"


subsection \<open>XenialFusionEngine\<close>

record fusionRecord =
  fr_timestamp :: int
  fr_pattern :: jsstring
  fr_sourceIDs :: "jsstring list"
  fr_resultID :: jsstring
  fr_emergence :: EmergenceMetrics
  fr_score :: jsnum

text \<open>
  The engine holds a reference to the composer it was built with; the model keeps that
  composer in the engine, and a call of the composer is a call on this field.
\<close>

record XenialFusionEngine =
  litComposer :: LITComposer
  fusionPatterns :: "(jsstring \<times> FusionPattern) list"
  fusionHistory :: "fusionRecord list"

record fusion_result =
  fusedLIT :: nat
  emergence :: EmergenceMetrics
  pattern :: jsstring

definition registerPattern :: "FusionPattern \<Rightarrow> XenialFusionEngine \<Rightarrow> XenialFusionEngine" where
  "registerPattern p eng =
     eng\<lparr>fusionPatterns := AList.update (fp_name p) p (fusionPatterns eng)\<rparr>"

definition initializeDefaultPatterns :: "XenialFusionEngine \<Rightarrow> XenialFusionEngine" where
  "initializeDefaultPatterns eng =
     (let eng1 = registerPattern
                   (FusionPattern_new (js ''Harmonic Synthesis'')
                      (js ''Combines related knowledge into coherent understanding'')
                      harmonicSynthesis) eng;
          eng2 = registerPattern
                   (FusionPattern_new (js ''Processual Integration'')
                      (js ''Integrates knowledge into executable processes'')
                      processualIntegration) eng1;
          eng3 = registerPattern
                   (FusionPattern_new (js ''Creative Amplification'')
                      (js ''Combines generative patterns to create novel outputs'')
                      creativeAmplification) eng2
      in registerPattern
           (FusionPattern_new (js ''Xenial Transcendence'')
              (js ''Fuses high-coherence LITs into transcendent patterns'')
              xenialTranscendence) eng3)"

definition XenialFusionEngine_new :: "LITComposer \<Rightarrow> XenialFusionEngine" where
  "XenialFusionEngine_new c =
     initializeDefaultPatterns \<lparr>litComposer = c, fusionPatterns = [], fusionHistory = []\<rparr>"

text \<open>
  \<open>selectFusionPattern\<close> returns \<open>this.fusionPatterns.get(name)\<close> for one of four names;
  \<open>selectFusionPatternName\<close> is the choice of that name.
\<close>

definition selectFusionPatternName :: "LIT list \<Rightarrow> env \<Rightarrow> jsstring \<times> env" where
  "selectFusionPatternName lits e =
     (let types = map lit_type lits;
          (total, e1) = sum_with calculateValue (Fin 0) lits e;
          avgValue = jdiv total (Fin (real (length lits)))
      in (if jlt (Fin 0.7) avgValue then js ''Xenial Transcendence''
          else if list_all (\<lambda>t. t = js ''creative'' \<or> t = js ''emergent-creative'') types
            then js ''Creative Amplification''
          else if js ''process'' \<in> set types \<and> js ''knowledge'' \<in> set types
            then js ''Processual Integration''
          else js ''Harmonic Synthesis'', e1))"

definition selectFusionPattern ::
  "LIT list \<Rightarrow> XenialFusionEngine \<Rightarrow> env \<Rightarrow> FusionPattern option \<times> env" where
  "selectFusionPattern lits eng e =
     (let (name, e1) = selectFusionPatternName lits e
      in (map_of (fusionPatterns eng) name, e1))"

text \<open>
  \<open>lits.forEach(sourceLIT => sourceLIT.relate(fusedLIT, 'fused-into'))\<close>. The fused
  LIT is the one just composed, so \<open>relate\<close> reads its \<open>id\<close> and does not throw.
\<close>

fun relate_all :: "nat list \<Rightarrow> nat \<Rightarrow> heap \<Rightarrow> env \<Rightarrow> heap \<times> env" where
  "relate_all [] fused h e = (h, e)"
| "relate_all (sourceLIT # rest) fused h e =
     (let (err, lit, e1) =
            relate (Some (lit_id (h ! fused))) (js ''fused-into'') (h ! sourceLIT) e
      in relate_all rest fused (h[sourceLIT := lit]) e1)"

text \<open>
  \<open>this.usageCount++\<close> in \<open>execute\<close>: it updates the pattern object, which the map of
  the engine holds under \<open>key\<close>, the name the pattern was found with.
\<close>

definition count_usage :: "jsstring \<Rightarrow> FusionPattern \<Rightarrow> XenialFusionEngine \<Rightarrow> XenialFusionEngine" where
  "count_usage key pattern' eng =
     eng\<lparr>fusionPatterns :=
           AList.update key (pattern'\<lparr>usageCount := Suc (usageCount pattern')\<rparr>)
             (fusionPatterns eng)\<rparr>"

text \<open>\<open>fuse\<close> from \<open>pattern.execute\<close> on, once its three checks have passed.\<close>

definition fuse_execute ::
  "jsstring \<Rightarrow> FusionPattern \<Rightarrow> nat list \<Rightarrow> jsstring list \<Rightarrow> XenialFusionEngine \<Rightarrow> heap \<Rightarrow> env \<Rightarrow>
   (error + fusion_result) \<times> XenialFusionEngine \<times> heap \<times> env" where
  "fuse_execute key pattern' lits litIDs eng h e =
     (let eng1 = count_usage key pattern' eng;
          (cfg, e1) = fusionLogic pattern' (map (\<lambda>lit. h ! lit) lits) e
      in case cfg of
           Inl err \<Rightarrow> (Inl err, eng1, h, e1)
         | Inr cfg' \<Rightarrow>
             (case compose cfg' (litComposer eng1) h e1 of
                (Inl err, c, h1, e2) \<Rightarrow> (Inl err, eng1\<lparr>litComposer := c\<rparr>, h1, e2)
              | (Inr fused, c, h1, e2) \<Rightarrow>
                  (let eng2 = eng1\<lparr>litComposer := c\<rparr>
                   in case EmergenceMetrics_calculate (map (\<lambda>lit. h1 ! lit) lits) (h1 ! fused) e2 of
                        (Inl err, e3) \<Rightarrow> (Inl err, eng2, h1, e3)
                      | (Inr em, e3) \<Rightarrow>
                          (let (r, boosted, e4) =
                                 interact (js ''fusion'') (Data (Some (emergenceScore em))) (h1 ! fused) e3;
                               h2 = h1[fused := boosted];
                               (h3, e5) = relate_all lits fused h2 e4;
                               (now, e6) = Date_now e5;
                               fusionRecord' =
                                 \<lparr>fr_timestamp = now, fr_pattern = fp_name pattern',
                                  fr_sourceIDs = litIDs, fr_resultID = lit_id (h3 ! fused),
                                  fr_emergence = em, fr_score = emergenceScore em\<rparr>
                           in (Inr \<lparr>fusedLIT = fused, emergence = em,
                                    pattern = fp_name pattern'\<rparr>,
                               eng2\<lparr>fusionHistory := fusionHistory eng2 @ [fusionRecord']\<rparr>,
                               h3, e6)))))"

text \<open>
  \<open>fuse(litIDs, patternName)\<close>; \<open>None\<close> is an omitted or \<open>null\<close> pattern name, and the
  empty string is falsy as well. \<open>pattern_key\<close> is the name the pattern is looked up
  with: \<open>patternName\<close> when it is truthy, the choice of \<open>selectFusionPattern\<close>
  otherwise. The result of \<open>fuse\<close> is the object returned or the error raised, with the
  engine, the heap and the platform as the call leaves them.
\<close>

definition pattern_key :: "jsstring option \<Rightarrow> LIT list \<Rightarrow> env \<Rightarrow> jsstring \<times> env" where
  "pattern_key patternName lits e =
     (case patternName of
        None \<Rightarrow> selectFusionPatternName lits e
      | Some name \<Rightarrow> if name \<noteq> [] then (name, e) else selectFusionPatternName lits e)"

definition fuse ::
  "jsstring list \<Rightarrow> jsstring option \<Rightarrow> XenialFusionEngine \<Rightarrow> heap \<Rightarrow> env \<Rightarrow>
   (error + fusion_result) \<times> XenialFusionEngine \<times> heap \<times> env" where
  "fuse litIDs patternName eng h e =
     (let lits = List.map_filter (find (litComposer eng)) litIDs
      in if length lits < 2 then (Inl FusionTooFew, eng, h, e)
         else
           (let (key, e1) = pattern_key patternName (map (\<lambda>lit. h ! lit) lits) e
            in case map_of (fusionPatterns eng) key of
                 None \<Rightarrow> (Inl (PatternNotFound patternName), eng, h, e1)
               | Some pattern' \<Rightarrow>
                   if \<not> canFuse pattern' (map (\<lambda>lit. h ! lit) lits)
                   then (Inl InsufficientCoherence, eng, h, e1)
                   else fuse_execute key pattern' lits litIDs eng h e1))"


text \<open>The operations of a composer, and the composer, heap and platform after a call.\<close>

datatype composer_call =
    Compose config
  | Find jsstring
  | FindByType jsstring
  | GetAllLITs
  | Network "nat option list" jsstring
  | MeasureNetworkCoherence

fun is_compose :: "composer_call \<Rightarrow> bool" where
  "is_compose (Compose cfg) = True"
| "is_compose call = False"

fun after_call :: "composer_call \<Rightarrow> LITComposer \<Rightarrow> heap \<Rightarrow> env \<Rightarrow> LITComposer \<times> heap \<times> env" where
  "after_call (Compose cfg) c h e = snd (compose cfg c h e)"
| "after_call (Find id') c h e = (c, h, e)"
| "after_call (FindByType ty) c h e = (c, h, e)"
| "after_call GetAllLITs c h e = (c, h, e)"
| "after_call (Network lits relationType) c h e = (c, snd (network lits relationType h e))"
| "after_call MeasureNetworkCoherence c h e = (c, h, snd (measureNetworkCoherence c h e))"

section \<open>Invariants and example inputs\<close>

text \<open>Every LIT the registry refers to has been created.\<close>

definition valid_refs :: "LITComposer \<Rightarrow> heap \<Rightarrow> bool" where
  "valid_refs c h = list_all (\<lambda>(k, lit). lit < length h) (registry c)"

text \<open>
  The patterns are stored under their names, and the four names of
  \<open>initializeDefaultPatterns\<close> still hold the patterns it registered (their usage counts
  and thresholds apart).
\<close>

definition default_logics :: "(jsstring \<times> fusionLogic) list" where
  "default_logics =
     [(js ''Harmonic Synthesis'', harmonicSynthesis),
      (js ''Processual Integration'', processualIntegration),
      (js ''Creative Amplification'', creativeAmplification),
      (js ''Xenial Transcendence'', xenialTranscendence)]"

definition is_default :: "XenialFusionEngine \<Rightarrow> jsstring \<times> fusionLogic \<Rightarrow> bool" where
  "is_default eng d =
     (case map_of (fusionPatterns eng) (fst d) of
        None \<Rightarrow> False
      | Some p \<Rightarrow> fusionLogic p = snd d)"

definition defaults_intact :: "XenialFusionEngine \<Rightarrow> bool" where
  "defaults_intact eng =
     (list_all (\<lambda>(k, p). fp_name p = k) (fusionPatterns eng) \<and>
      list_all (is_default eng) default_logics)"

text \<open>Two states of the same platform: they differ in the readings made so far only.\<close>

definition same_platform :: "env \<Rightarrow> env \<Rightarrow> bool" where
  "same_platform e e' =
     (clock e' = clock e \<and> random e' = random e \<and>
      numberToString e' = numberToString e \<and>
      numberToString36 e' = numberToString36 e \<and>
      toISOString e' = toISOString e)"

text \<open>
  A platform for the examples: a clock that stays at one millisecond, a random
  generator that returns 0, and formatting that is exact on the natural numbers and
  on that instant.
\<close>

fun digits36 :: "nat \<Rightarrow> jsstring" where
  "digits36 n =
     (if n < 36 then [hex_digit (of_nat n)]
      else digits36 (n div 36) @ [hex_digit (of_nat (n mod 36))])"

definition env0 :: env where
  "env0 =
     \<lparr>clock = (\<lambda>n. 1700000000000), reads = 0, random = (\<lambda>n. 0), draws = 0,
      numberToString = (\<lambda>x. digits10 (nat \<lfloor>x\<rfloor>)),
      numberToString36 = (\<lambda>x. digits36 (nat \<lfloor>x\<rfloor>)),
      toISOString = (\<lambda>t. js ''2023-11-14T22:13:20.000Z'')\<rparr>"

text \<open>
  A knowledge LIT as \<open>lit-examples.js\<close> builds it, with a \<open>query\<close> capability and an
  identifier of its own.
\<close>

definition query_handler :: handler where
  "query_handler context e =
     (Inr (JObj [(js ''response'', JStr (js ''Information'')),
                 (js ''confidence'', JNum (Fin 0.8))]), e)"

definition knowledge_config :: "string \<Rightarrow> string \<Rightarrow> string \<Rightarrow> config" where
  "knowledge_config i topic knowledge =
     \<lparr>cfg_id = Some (js i),
      cfg_type = Some (js ''knowledge''),
      cfg_version = None,
      cfg_content = JObj
        [(js ''topic'', JStr (js topic)),
         (js ''knowledge'', JStr (js knowledge)),
         (js ''citations'', JArr []),
         (js ''confidence'', JNum (Fin 0.8)),
         (js ''id'', JStr (js ''knowledge-'' @ js topic)),
         (js ''persistent'', JBool True)],
      cfg_metadata = JObj [(js ''domain'', JStr (js ''epistemology''))],
      cfg_capabilities = Some
        [\<lparr>cap_name = js ''query'', cap_handler = query_handler, cap_uses = None\<rparr>],
      cfg_relations = None\<rparr>"

text \<open>A composer with two such LITs, \<open>a\<close> and \<open>b\<close>, and a fusion engine on it.\<close>

definition example1 :: "LITComposer \<times> heap \<times> env" where
  "example1 = snd (compose (knowledge_config ''a'' ''Waves'' ''alpha'') LITComposer_new [] env0)"

definition example2 :: "LITComposer \<times> heap \<times> env" where
  "example2 =
     (case example1 of
        (c, h, e) \<Rightarrow> snd (compose (knowledge_config ''b'' ''Particles'' ''beta'') c h e))"

definition ex_composer :: LITComposer where
  "ex_composer = fst example2"

definition ex_heap :: heap where
  "ex_heap = fst (snd example2)"

definition ex_env :: env where
  "ex_env = snd (snd example2)"

definition ex_engine :: XenialFusionEngine where
  "ex_engine = XenialFusionEngine_new ex_composer"

text \<open>
  A third LIT \<open>c\<close> in that composer, whose \<open>knowledge\<close> is the number 0, and a fusion
  engine on the three.
\<close>

definition zero_config :: config where
  "zero_config =
     \<lparr>cfg_id = Some (js ''c''),
      cfg_type = Some (js ''knowledge''),
      cfg_version = None,
      cfg_content = JObj
        [(js ''topic'', JStr (js ''Nothing'')),
         (js ''knowledge'', JNum (Fin 0))],
      cfg_metadata = JUndefined,
      cfg_capabilities = None,
      cfg_relations = None\<rparr>"

definition example3 :: "LITComposer \<times> heap \<times> env" where
  "example3 = snd (compose zero_config ex_composer ex_heap ex_env)"

definition ex_composer3 :: LITComposer where
  "ex_composer3 = fst example3"

definition ex_heap3 :: heap where
  "ex_heap3 = fst (snd example3)"

definition ex_env3 :: env where
  "ex_env3 = snd (snd example3)"

definition ex_engine3 :: XenialFusionEngine where
  "ex_engine3 = XenialFusionEngine_new ex_composer3"

text \<open>
  The item a source LIT contributes to \<open>synthesizedKnowledge\<close>, in the words of the
  specification: its \<open>content.knowledge\<close>, or its \<open>content.description\<close> when it has no
  \<open>knowledge\<close>, or the empty string when it has neither.
\<close>

definition knowledge_if_present :: "jsval \<Rightarrow> jsval" where
  "knowledge_if_present c =
     (if get_prop c (js ''knowledge'') \<noteq> JUndefined then get_prop c (js ''knowledge'')
      else if get_prop c (js ''description'') \<noteq> JUndefined then get_prop c (js ''description'')
      else JStr [])"

text \<open>An agent system built from such a capability, as the constructor of a LIT builds it.\<close>

definition ex_agent :: AgentSystem where
  "ex_agent =
     AgentSystem_new [\<lparr>cap_name = js ''query'', cap_handler = query_handler, cap_uses = None\<rparr>]"


text \<open>
  The classification of a value: the state is one of the five names, and the one that
  goes with the interval the value lies in.
\<close>

definition state_matches :: "jsstring \<Rightarrow> jsnum \<Rightarrow> bool" where
  "state_matches s v =
     (s \<in> set [js ''decaying'', js ''nascent'', js ''stable'', js ''resonant'',
               js ''transcendent''] \<and>
      (jlt v (Fin 0.2) \<longrightarrow> s = js ''decaying'') \<and>
      (jge v (Fin 0.2) \<and> jlt v (Fin 0.4) \<longrightarrow> s = js ''nascent'') \<and>
      (jge v (Fin 0.4) \<and> jlt v (Fin 0.6) \<longrightarrow> s = js ''stable'') \<and>
      (jge v (Fin 0.6) \<and> jlt v (Fin 0.8) \<longrightarrow> s = js ''resonant'') \<and>
      (jge v (Fin 0.8) \<longrightarrow> s = js ''transcendent''))"

section \<open>The public interface\<close>


text \<open>The error of a result, if it is one.\<close>

definition thrown :: "error + 'a \<Rightarrow> error option" where
  "thrown r = (case r of Inl err \<Rightarrow> Some err | Inr v \<Rightarrow> None)"






section \<open>Properties\<close>

subsection \<open>Numbers and strings\<close>

declare digits10.simps [simp del] digits36.simps [simp del]

lemma Math_min_Fin: "Math_min (Fin a) (Fin b) = Fin (min a b)"
  by (auto simp: Math_min_def)

lemma Math_max_Fin: "Math_max (Fin a) (Fin b) = Fin (max a b)"
  by (auto simp: Math_max_def)

lemma split_from_nonempty: "split_from cur s \<noteq> []"
  by (induction cur s rule: split_from.induct) auto

lemma jadd_NaN_right [simp]: "jadd x NaN = NaN"
  by (cases x) simp_all

lemma jmul_NaN_right [simp]: "jmul x NaN = NaN"
  by (cases x) simp_all

lemma jdiv_NaN_right [simp]: "jdiv x NaN = NaN"
  by (cases x) simp_all

lemma Math_min_NaN [simp]: "Math_min x NaN = NaN" "Math_min NaN x = NaN"
  by (simp_all add: Math_min_def)


lemma truthy_not_nullish: "truthy v \<Longrightarrow> \<not> nullish v"
  by (cases v) (auto simp: nullish_def)

lemma or_else_object_not_nullish: "\<not> nullish (or_else v (JObj []))"
  by (cases "truthy v") (auto simp: or_else_def nullish_def dest: truthy_not_nullish)

lemma CoherenceField_new_Inl:
  "(CoherenceField_new e c = Inl err) = (nullish c \<and> err = TypeError)"
proof (cases "nullish c")
  case True
  then have "measureResonance c = Inl TypeError"
    by (simp add: measureResonance_def)
  then show ?thesis
    using True by (auto simp: CoherenceField_new_def Let_def)
next
  case False
  then obtain r where r: "measureResonance c = Inr r"
    by (auto simp: measureResonance_def Let_def)
  from False obtain x where x: "measureEntropy e c = Inr x"
    by (cases "measureEntropy e c") (auto simp: measureEntropy_def JSON_stringify_def nullish_def Let_def)
  show ?thesis
    using False by (simp add: CoherenceField_new_def Let_def r x)
qed

lemma CoherenceField_new_total:
  "\<not> nullish c \<Longrightarrow> \<exists>cf. CoherenceField_new e c = Inr cf"
  by (cases "CoherenceField_new e c") (auto simp: CoherenceField_new_Inl)

subsection \<open>The platform is read, never changed\<close>

lemma stringify_value_platform:
  "numberToString e' = numberToString e \<Longrightarrow> stringify_value e' v = stringify_value e v"
proof (induction e v rule: stringify_value.induct)
  case (7 e kvs)
  have "map (\<lambda>(k, v). QuoteJSONString k @ js '':'' @ stringify_value e' v)
          (filter (\<lambda>(k, v). v \<noteq> JUndefined) kvs) =
        map (\<lambda>(k, v). QuoteJSONString k @ js '':'' @ stringify_value e v)
          (filter (\<lambda>(k, v). v \<noteq> JUndefined) kvs)"
    by (rule map_cong) (use 7 in auto)
  then show ?case by (simp only: stringify_value.simps)
qed (auto split: jsnum.splits cong: map_cong)

lemma measureEntropy_platform:
  "numberToString e' = numberToString e \<Longrightarrow> measureEntropy e' c = measureEntropy e c"
  by (simp add: measureEntropy_def JSON_stringify_def stringify_value_platform [of e' e])

lemma CoherenceField_new_platform:
  "same_platform e e' \<Longrightarrow> CoherenceField_new e' c = CoherenceField_new e c"
  using measureEntropy_platform [of e' e c]
  by (simp add: CoherenceField_new_def same_platform_def split: sum.splits)

lemma same_platform_refl [simp]: "same_platform e e"
  by (simp add: same_platform_def)

lemma same_platform_trans: "same_platform a b \<Longrightarrow> same_platform b c \<Longrightarrow> same_platform a c"
  by (simp add: same_platform_def)

lemma same_platform_reads [simp]: "same_platform e (e\<lparr>reads := n\<rparr>)"
  by (simp add: same_platform_def)

lemma same_platform_draws [simp]: "same_platform e (e\<lparr>draws := n\<rparr>)"
  by (simp add: same_platform_def)

lemma calculateValue_env: "snd (calculateValue lit e) = e\<lparr>reads := Suc (reads e)\<rparr>"
  by (simp add: calculateValue_def temporalValue_def Date_now_def Let_def split: prod.splits)

lemma updateState_shape:
  "\<exists>s. updateState lit e = (lit\<lparr>state := s\<rparr>, e\<lparr>reads := Suc (reads e)\<rparr>)"
  using calculateValue_env [of lit e]
  by (auto simp: updateState_def Let_def split: prod.splits)

lemma updateState_fields:
  "updateState lit e = (lit', e') \<Longrightarrow>
   lit' = lit\<lparr>state := state lit'\<rparr> \<and> e' = e\<lparr>reads := Suc (reads e)\<rparr>"
  using updateState_shape [of lit e] by auto

lemma ts_record_env: "snd (ts_record ty i ts e) = e\<lparr>reads := reads e + 3\<rparr>"
  by (simp add: ts_record_def updatePersistence_def Date_now_def Let_def split: prod.splits)

lemma TemporalSignature_new_eq:
  "TemporalSignature_new e =
     (\<lparr>createdAt = clock e (reads e), lastModified = clock e (Suc (reads e)),
       interactions = [], persistence = Fin 0\<rparr>, e\<lparr>reads := Suc (Suc (reads e))\<rparr>)"
  by (simp add: TemporalSignature_new_def Date_now_def Let_def)

lemma generateId_platform: "same_platform e (snd (generateId e))"
  by (simp add: generateId_def Date_now_def Math_random_def Let_def same_platform_def
      split: prod.splits)

subsection \<open>The constructor\<close>

text \<open>The constructor never throws; what it builds.\<close>

lemma LIT_new_result:
  "\<exists>lit e' cf.
     LIT_new cfg e = (Inr lit, e') \<and>
     CoherenceField_new e (or_else (cfg_content cfg) (JObj [])) = Inr cf \<and>
     same_platform e e' \<and>
     lit_type lit = string_or (cfg_type cfg) (js ''generic'') \<and>
     version lit = string_or (cfg_version cfg) (js ''1.0.0'') \<and>
     content lit = or_else (cfg_content cfg) (JObj []) \<and>
     metadata lit = or_else (cfg_metadata cfg) (JObj []) \<and>
     coherenceField lit = cf \<and>
     agentSystem lit =
       AgentSystem_new (case cfg_capabilities cfg of None \<Rightarrow> [] | Some cs \<Rightarrow> cs) \<and>
     temporalSignature lit =
       \<lparr>createdAt = clock e (reads e' - 3), lastModified = clock e (reads e' - 2),
        interactions = [], persistence = Fin 0\<rparr> \<and>
     3 \<le> reads e' \<and>
     relations lit = (case cfg_relations cfg of None \<Rightarrow> [] | Some rs \<Rightarrow> rs) \<and>
     (if string_or (cfg_id cfg) [] \<noteq> []
      then lit_id lit = string_or (cfg_id cfg) [] \<and> e' = e\<lparr>reads := reads e + 3\<rparr>
      else lit_id lit = fst (generateId e))"
proof -
  let ?g = "(case cfg_id cfg of None \<Rightarrow> generateId e
             | Some x \<Rightarrow> if x \<noteq> [] then (x, e) else generateId e)"
  obtain i e1 where ie: "?g = (i, e1)"
    by (cases ?g) auto
  have p1: "same_platform e e1"
    using ie generateId_platform [of e] by (auto split: option.splits if_splits)
  let ?c = "or_else (cfg_content cfg) (JObj [])"
  obtain cf where cf: "CoherenceField_new e1 ?c = Inr cf"
    using CoherenceField_new_total [OF or_else_object_not_nullish] by blast
  then have cf': "CoherenceField_new e ?c = Inr cf"
    using CoherenceField_new_platform [OF p1] by simp
  have idc: "if string_or (cfg_id cfg) [] \<noteq> [] then i = string_or (cfg_id cfg) [] \<and> e1 = e
             else i = fst (generateId e)"
    using ie by (auto simp: string_or_def split: option.splits if_splits)
  let ?lit0 = "\<lparr>lit_id = i, lit_type = string_or (cfg_type cfg) (js ''generic''),
       version = string_or (cfg_version cfg) (js ''1.0.0''), content = ?c,
       metadata = or_else (cfg_metadata cfg) (JObj []), coherenceField = cf,
       agentSystem = AgentSystem_new (case cfg_capabilities cfg of None \<Rightarrow> [] | Some cs \<Rightarrow> cs),
       temporalSignature = \<lparr>createdAt = clock e1 (reads e1), lastModified = clock e1 (Suc (reads e1)),
          interactions = [], persistence = Fin 0\<rparr>,
       relations = (case cfg_relations cfg of None \<Rightarrow> [] | Some rs \<Rightarrow> rs),
       state = js ''nascent''\<rparr>"
  let ?e2 = "e1\<lparr>reads := Suc (Suc (reads e1))\<rparr>"
  obtain lit' e3 where us: "updateState ?lit0 ?e2 = (lit', e3)"
    by (cases "updateState ?lit0 ?e2") auto
  from updateState_fields [OF us]
  have l: "lit' = ?lit0\<lparr>state := state lit'\<rparr>" and e3: "e3 = ?e2\<lparr>reads := Suc (reads ?e2)\<rparr>"
    by auto
  have n: "LIT_new cfg e = (Inr lit', e3)"
    unfolding LIT_new_def Let_def ie
    by (simp add: cf TemporalSignature_new_eq us)
  have c1: "clock e1 = clock e"
    using p1 by (simp add: same_platform_def)
  have "same_platform e e3"
    using p1 e3 by (simp add: same_platform_def)
  moreover have "temporalSignature lit' =
       \<lparr>createdAt = clock e (reads e3 - 3), lastModified = clock e (reads e3 - 2),
        interactions = [], persistence = Fin 0\<rparr>"
    by (subst l) (simp add: e3 c1)
  moreover have "3 \<le> reads e3"
    by (simp add: e3)
  moreover have "lit_type lit' = string_or (cfg_type cfg) (js ''generic'')"
    "version lit' = string_or (cfg_version cfg) (js ''1.0.0'')"
    "content lit' = ?c" "metadata lit' = or_else (cfg_metadata cfg) (JObj [])"
    "coherenceField lit' = cf"
    "agentSystem lit' = AgentSystem_new (case cfg_capabilities cfg of None \<Rightarrow> [] | Some cs \<Rightarrow> cs)"
    "relations lit' = (case cfg_relations cfg of None \<Rightarrow> [] | Some rs \<Rightarrow> rs)"
    "lit_id lit' = i"
    by (subst l, simp)+
  moreover have "string_or (cfg_id cfg) [] \<noteq> [] \<Longrightarrow> e3 = e\<lparr>reads := reads e + 3\<rparr>"
    using idc e3 by simp
  ultimately show ?thesis
    using n cf' idc by auto
qed


lemma LIT_new_fields:
  assumes "LIT_new cfg e = (Inr lit, e')"
  shows "CoherenceField_new e (content lit) = Inr (coherenceField lit)"
    and "same_platform e e'"
    and "lit_type lit = string_or (cfg_type cfg) (js ''generic'')"
    and "content lit = or_else (cfg_content cfg) (JObj [])"
    and "metadata lit = or_else (cfg_metadata cfg) (JObj [])"
    and "agentSystem lit =
       AgentSystem_new (case cfg_capabilities cfg of None \<Rightarrow> [] | Some cs \<Rightarrow> cs)"
    and "temporalSignature lit =
       \<lparr>createdAt = clock e (reads e' - 3), lastModified = clock e (reads e' - 2),
        interactions = [], persistence = Fin 0\<rparr>"
    and "relations lit = (case cfg_relations cfg of None \<Rightarrow> [] | Some rs \<Rightarrow> rs)"
    and "string_or (cfg_id cfg) [] \<noteq> [] \<Longrightarrow> lit_id lit = string_or (cfg_id cfg) []"
  using LIT_new_result [of cfg e] assms by auto

subsection \<open>The composer\<close>

lemma compose_result:
  "\<exists>lit e'. LIT_new cfg e = (Inr lit, e') \<and>
     compose cfg c h e =
       (Inr (length h), c\<lparr>registry := AList.update (lit_id lit) (length h) (registry c)\<rparr>,
        h @ [lit], e')"
  using LIT_new_result [of cfg e] by (auto simp: compose_def)

lemma compose_with_id:
  assumes "cfg_id cfg = Some i" and "i \<noteq> []"
  shows "\<exists>lit. LIT_new cfg e = (Inr lit, e\<lparr>reads := reads e + 3\<rparr>) \<and> lit_id lit = i \<and>
     compose cfg c h e =
       (Inr (length h), c\<lparr>registry := AList.update i (length h) (registry c)\<rparr>,
        h @ [lit], e\<lparr>reads := reads e + 3\<rparr>)"
proof -
  have "string_or (cfg_id cfg) [] = i"
    using assms by (simp add: string_or_def)
  then show ?thesis
    using LIT_new_result [of cfg e] assms by (auto simp: compose_def)
qed

text \<open>
  Claim C8. The composer registry is a map keyed by the LIT's identifier: \<open>compose\<close>
  returns a LIT, and right after it \<open>find(lit.id)\<close> returns that same LIT,
  \<open>getAllLITs()\<close> includes it and \<open>findByType(lit.type)\<close> includes it. No other
  operation of the composer changes the registry.
\<close>

theorem compose_registers:
  "(\<exists>lit c' h' e'.
     compose cfg c h e = (Inr lit, c', h', e') \<and>
     find c' (lit_id (h' ! lit)) = Some lit \<and>
     lit \<in> set (getAllLITs c') \<and>
     lit \<in> set (findByType c' h' (lit_type (h' ! lit)))) \<and>
   (is_compose call \<or> registry (fst (after_call call c h e)) = registry c)"
proof
  obtain L e' where c: "compose cfg c h e =
     (Inr (length h), c\<lparr>registry := AList.update (lit_id L) (length h) (registry c)\<rparr>,
      h @ [L], e')"
    using compose_result by blast
  let ?r = "AList.update (lit_id L) (length h) (registry c)"
  have f: "map_of ?r (lit_id L) = Some (length h)"
    by (simp add: update_conv')
  then have m: "length h \<in> set (map snd ?r)"
    by (metis map_of_SomeD set_zip_rightD zip_map_fst_snd)
  show "\<exists>lit c' h' e'.
     compose cfg c h e = (Inr lit, c', h', e') \<and>
     find c' (lit_id (h' ! lit)) = Some lit \<and>
     lit \<in> set (getAllLITs c') \<and>
     lit \<in> set (findByType c' h' (lit_type (h' ! lit)))"
    using c f m by (simp add: find_def getAllLITs_def findByType_def)
next
  show "is_compose call \<or> registry (fst (after_call call c h e)) = registry c"
    by (cases call) simp_all
qed

subsection \<open>The example composer\<close>

lemma env0_reads [simp]: "reads env0 = 0"
  by (simp add: env0_def)

lemma example1_eq:
  "\<exists>A. example1 = (\<lparr>registry = [(js ''a'', 0)]\<rparr>, [A], env0\<lparr>reads := 3\<rparr>) \<and>
     LIT_new (knowledge_config ''a'' ''Waves'' ''alpha'') env0 = (Inr A, env0\<lparr>reads := 3\<rparr>)"
proof -
  have i: "cfg_id (knowledge_config ''a'' ''Waves'' ''alpha'') = Some (js ''a'')" "js ''a'' \<noteq> []"
    by (simp_all add: knowledge_config_def js_def)
  show ?thesis
    using compose_with_id [OF i, of env0 LITComposer_new "[]"]
    by (auto simp: example1_def LITComposer_new_def)
qed

lemma example2_eq:
  "\<exists>A B. example2 =
       (\<lparr>registry = [(js ''a'', 0), (js ''b'', 1)]\<rparr>, [A, B], env0\<lparr>reads := 6\<rparr>) \<and>
     LIT_new (knowledge_config ''a'' ''Waves'' ''alpha'') env0 = (Inr A, env0\<lparr>reads := 3\<rparr>) \<and>
     LIT_new (knowledge_config ''b'' ''Particles'' ''beta'') (env0\<lparr>reads := 3\<rparr>) =
       (Inr B, env0\<lparr>reads := 6\<rparr>)"
proof -
  obtain A where a: "example1 = (\<lparr>registry = [(js ''a'', 0)]\<rparr>, [A], env0\<lparr>reads := 3\<rparr>)"
    "LIT_new (knowledge_config ''a'' ''Waves'' ''alpha'') env0 = (Inr A, env0\<lparr>reads := 3\<rparr>)"
    using example1_eq by blast
  have i: "cfg_id (knowledge_config ''b'' ''Particles'' ''beta'') = Some (js ''b'')" "js ''b'' \<noteq> []"
    by (simp_all add: knowledge_config_def js_def)
  obtain B where b:
    "LIT_new (knowledge_config ''b'' ''Particles'' ''beta'') (env0\<lparr>reads := 3\<rparr>) =
       (Inr B, env0\<lparr>reads := 6\<rparr>)"
    "compose (knowledge_config ''b'' ''Particles'' ''beta'') \<lparr>registry = [(js ''a'', 0)]\<rparr> [A]
       (env0\<lparr>reads := 3\<rparr>) =
     (Inr 1, \<lparr>registry = [(js ''a'', 0), (js ''b'', 1)]\<rparr>, [A, B], env0\<lparr>reads := 6\<rparr>)"
    using compose_with_id [OF i, of "env0\<lparr>reads := 3\<rparr>" "\<lparr>registry = [(js ''a'', 0)]\<rparr>" "[A]"]
    by (auto simp: js_def)
  have "example2 = (\<lparr>registry = [(js ''a'', 0), (js ''b'', 1)]\<rparr>, [A, B], env0\<lparr>reads := 6\<rparr>)"
    unfolding example2_def a(1) by (simp add: b(2))
  then show ?thesis
    using a(2) b(1) by blast
qed

lemma ex_registry: "registry ex_composer = [(js ''a'', 0), (js ''b'', 1)]"
proof -
  obtain A B where x: "example2 =
       (\<lparr>registry = [(js ''a'', 0), (js ''b'', 1)]\<rparr>, [A, B], env0\<lparr>reads := 6\<rparr>)"
    using example2_eq by blast
  show ?thesis
    unfolding ex_composer_def by (subst x) simp
qed

lemma ex_find:
  "find ex_composer (js ''a'') = Some 0" "find ex_composer (js ''b'') = Some 1"
  "find ex_composer (js ''zz'') = None"
  by (simp_all add: find_def ex_registry js_def)

lemma ex_engine_composer: "litComposer ex_engine = ex_composer"
  by (simp add: ex_engine_def XenialFusionEngine_new_def initializeDefaultPatterns_def
      registerPattern_def Let_def)

lemma ex_heap_eq:
  "\<exists>A B. ex_heap = [A, B] \<and> ex_env = env0\<lparr>reads := 6\<rparr> \<and>
     LIT_new (knowledge_config ''a'' ''Waves'' ''alpha'') env0 = (Inr A, env0\<lparr>reads := 3\<rparr>) \<and>
     LIT_new (knowledge_config ''b'' ''Particles'' ''beta'') (env0\<lparr>reads := 3\<rparr>) =
       (Inr B, env0\<lparr>reads := 6\<rparr>)"
proof -
  obtain A B where x: "example2 =
       (\<lparr>registry = [(js ''a'', 0), (js ''b'', 1)]\<rparr>, [A, B], env0\<lparr>reads := 6\<rparr>)"
     and ab: "LIT_new (knowledge_config ''a'' ''Waves'' ''alpha'') env0 = (Inr A, env0\<lparr>reads := 3\<rparr>)"
     "LIT_new (knowledge_config ''b'' ''Particles'' ''beta'') (env0\<lparr>reads := 3\<rparr>) =
       (Inr B, env0\<lparr>reads := 6\<rparr>)"
    using example2_eq by blast
  have "ex_heap = [A, B]" "ex_env = env0\<lparr>reads := 6\<rparr>"
    unfolding ex_heap_def ex_env_def by (subst x, simp)+
  then show ?thesis
    using ab by blast
qed

lemma clock_env0 [simp]: "clock env0 = (\<lambda>n. 1700000000000)"
  by (simp add: env0_def)

subsection \<open>Capabilities\<close>



lemma increment_uses_counted:
  "cap_uses c = Some (Fin n) \<Longrightarrow> cap_uses (increment_uses c) = Some (Fin (n + 1))"
  by (simp add: increment_uses_def uses_number_def)

text \<open>
  Claim C4. \<open>executeCapability(name, context)\<close> throws "Capability not found" exactly
  when no capability of that name is registered; otherwise it increments the uses
  counter of that capability by one, recomputes the agency sub-scores and returns the
  result of the handler. The code does so for a capability made by \<open>defineCapability\<close>
  (\<open>increment_uses_counted\<close>). A capability handed to the constructor, as
  \<open>lit-examples.js\<close> and the fusion patterns hand theirs, has no \<open>uses\<close> property:
  \<open>uses++\<close> makes it \<open>NaN\<close>, and the intentionality and the agency score become \<open>NaN\<close>.
\<close>

theorem executeCapability_config_capability:
  "executeCapability (js ''query'') (JObj []) ex_agent env0 =
     ((Inr (JObj [(js ''response'', JStr (js ''Information'')),
                  (js ''confidence'', JNum (Fin 0.8))]),
       \<lparr>capabilities =
          [\<lparr>cap_name = js ''query'', cap_handler = query_handler, cap_uses = Some NaN\<rparr>],
        autonomy = Fin 0.1, intentionality = NaN, effectivity = Fin 0\<rparr>), env0) \<and>
   agencyScore \<lparr>capabilities =
          [\<lparr>cap_name = js ''query'', cap_handler = query_handler, cap_uses = Some NaN\<rparr>],
        autonomy = Fin 0.1, intentionality = NaN, effectivity = Fin 0\<rparr> = NaN"
proof -
  have x1: "List.extract (\<lambda>c. cap_name c = js ''query'') (capabilities ex_agent) =
     Some ([], \<lparr>cap_name = js ''query'', cap_handler = query_handler, cap_uses = None\<rparr>, [])"
    by (simp add: ex_agent_def AgentSystem_new_def extract_Cons_code extract_Nil_code)
  have x2: "calculateAgency \<lparr>capabilities =
          [\<lparr>cap_name = js ''query'', cap_handler = query_handler, cap_uses = Some NaN\<rparr>],
        autonomy = Fin 0, intentionality = Fin 0, effectivity = Fin 0\<rparr> = \<lparr>capabilities =
          [\<lparr>cap_name = js ''query'', cap_handler = query_handler, cap_uses = Some NaN\<rparr>],
        autonomy = Fin 0.1, intentionality = NaN, effectivity = Fin 0\<rparr>"
    by (simp add: calculateAgency_def uses_number_def Let_def Math_min_Fin Math_max_Fin)
  have x3: "increment_uses \<lparr>cap_name = js ''query'', cap_handler = query_handler, cap_uses = None\<rparr>
     = \<lparr>cap_name = js ''query'', cap_handler = query_handler, cap_uses = Some NaN\<rparr>"
    by (simp add: increment_uses_def uses_number_def)
  have x4: "ex_agent\<lparr>capabilities := [\<lparr>cap_name = js ''query'', cap_handler = query_handler, cap_uses = Some NaN\<rparr>]\<rparr>
     = \<lparr>capabilities =
          [\<lparr>cap_name = js ''query'', cap_handler = query_handler, cap_uses = Some NaN\<rparr>],
        autonomy = Fin 0, intentionality = Fin 0, effectivity = Fin 0\<rparr>"
    by (simp add: ex_agent_def AgentSystem_new_def)
  show ?thesis
    by (simp add: executeCapability_def x1 x3 x4 x2 query_handler_def agencyScore_def)
qed


subsection \<open>The value after an interaction\<close>

lemma ts_record_same_ms:
  assumes "clock e (reads e + 2) = createdAt ts"
  shows "persistence (fst (ts_record ty i ts e)) = NaN"
  using assms
  by (simp add: ts_record_def updatePersistence_def Date_now_def Let_def)

lemma ts_record_createdAt: "createdAt (fst (ts_record ty i ts e)) = createdAt ts"
  by (simp add: ts_record_def updatePersistence_def Date_now_def Let_def)

lemma calculateValue_NaN:
  "persistence (temporalSignature lit) = NaN \<Longrightarrow> fst (calculateValue lit e) = NaN"
  by (simp add: calculateValue_def temporalValue_def Date_now_def Let_def split: prod.splits)

lemma updateState_NaN:
  "persistence (temporalSignature lit) = NaN \<Longrightarrow>
   fst (updateState lit e) = lit\<lparr>state := js ''transcendent''\<rparr>"
  by (simp add: updateState_def Let_def split_def calculateValue_NaN)

lemma interact_same_ms:
  assumes "clock e (reads e + 2) = createdAt (temporalSignature lit)"
  shows "map_sum id newValue (fst (interact ty (Data d) lit e)) = Inr NaN \<and>
         state (fst (snd (interact ty (Data d) lit e))) = js ''transcendent'' \<and>
         fst (calculateValue (fst (snd (interact ty (Data d) lit e))) e'') = NaN"
proof -
  let ?i = "(case d of None \<Rightarrow> Fin 0.1 | Some n \<Rightarrow> if truthy (JNum n) then n else Fin 0.1)"
  let ?ts = "fst (ts_record ty ?i (temporalSignature lit) e)"
  let ?e1 = "snd (ts_record ty ?i (temporalSignature lit) e)"
  have p: "persistence ?ts = NaN"
    using ts_record_same_ms [OF assms] .
  let ?l = "lit\<lparr>temporalSignature := ?ts\<rparr>"
  have u: "fst (updateState ?l ?e1) = ?l\<lparr>state := js ''transcendent''\<rparr>"
    using updateState_NaN [of ?l ?e1] p by simp
  have l1: "fst (snd (interact ty (Data d) lit e)) = ?l\<lparr>state := js ''transcendent''\<rparr>"
    using u by (simp add: interact_def Let_def split_def)
  have v: "map_sum id newValue (fst (interact ty (Data d) lit e)) =
           Inr (fst (calculateValue (?l\<lparr>state := js ''transcendent''\<rparr>)
                       (snd (updateState ?l ?e1))))"
    using u by (simp add: interact_def Let_def split_def)
  show ?thesis
    using l1 v p by (simp add: calculateValue_NaN)
qed


text \<open>
  Claim C2. The formula outputs stay within their numeric ranges, and every operation
  preserves this: \<open>calculateValue()\<close> returns a number between 0 and 1. An \<open>interact\<close>
  in the millisecond the LIT was created in divides by an age of zero:
  the persistence is \<open>log(1) * (1 + 1/0)\<close>, which is \<open>NaN\<close>, and so are the new value and
  every later value of the LIT; the state becomes \<open>transcendent\<close>.
\<close>

theorem interact_same_millisecond:
  "map_sum id newValue (fst (interact (js ''view'') (Data None) (ex_heap ! 0) ex_env)) = Inr NaN \<and>
   state (fst (snd (interact (js ''view'') (Data None) (ex_heap ! 0) ex_env))) =
     js ''transcendent'' \<and>
   \<not> in_unit (newValue (projr (fst (interact (js ''view'') (Data None) (ex_heap ! 0) ex_env))))"
proof -
  obtain A B where h: "ex_heap = [A, B]" "ex_env = env0\<lparr>reads := 6\<rparr>"
    and a: "LIT_new (knowledge_config ''a'' ''Waves'' ''alpha'') env0 = (Inr A, env0\<lparr>reads := 3\<rparr>)"
    using ex_heap_eq by blast
  have "createdAt (temporalSignature A) = 1700000000000"
    using LIT_new_fields(7) [OF a] by simp
  then have "clock ex_env (reads ex_env + 2) = createdAt (temporalSignature (ex_heap ! 0))"
    by (simp add: h)
  from interact_same_ms [OF this, of "js ''view''" None]
  have "map_sum id newValue (fst (interact (js ''view'') (Data None) (ex_heap ! 0) ex_env)) =
          Inr NaN"
    and "state (fst (snd (interact (js ''view'') (Data None) (ex_heap ! 0) ex_env))) =
           js ''transcendent''"
    by simp_all
  then show ?thesis
    by (cases "fst (interact (js ''view'') (Data None) (ex_heap ! 0) ex_env)") auto
qed

subsection \<open>Fusion, step by step\<close>

lemma EmergenceMetrics_calculate_Inl:
  "(fst (EmergenceMetrics_calculate inputs fused e) = Inl err) =
   ((list_ex (\<lambda>lit. content lit = JUndefined) inputs \<or> content fused = JUndefined) \<and>
    err = TypeError)"
  by (auto simp: EmergenceMetrics_calculate_def Let_def split_def)

lemma fuse_checks:
  assumes "lits = List.map_filter (find (litComposer eng)) litIDs"
    and "objs = map (\<lambda>lit. h ! lit) lits"
  shows "fuse litIDs patternName eng h e =
     (if length lits < 2 then (Inl FusionTooFew, eng, h, e)
      else case map_of (fusionPatterns eng) (fst (pattern_key patternName objs e)) of
             None \<Rightarrow> (Inl (PatternNotFound patternName), eng, h, snd (pattern_key patternName objs e))
           | Some p \<Rightarrow>
               if \<not> canFuse p objs
               then (Inl InsufficientCoherence, eng, h, snd (pattern_key patternName objs e))
               else fuse_execute (fst (pattern_key patternName objs e)) p lits litIDs eng h
                      (snd (pattern_key patternName objs e)))"
  using assms by (simp add: fuse_def Let_def split_def split: option.splits)

lemma interact_fields:
  "interact ty (Data d) lit e = (r, lit', e') \<Longrightarrow>
   lit_id lit' = lit_id lit \<and> lit_type lit' = lit_type lit \<and> content lit' = content lit \<and>
   metadata lit' = metadata lit \<and>
   coherenceField lit' = coherenceField lit \<and> agentSystem lit' = agentSystem lit \<and>
   relations lit' = relations lit \<and>
   temporalSignature lit' =
     fst (ts_record ty (case d of None \<Rightarrow> Fin 0.1 | Some n \<Rightarrow> if truthy (JNum n) then n else Fin 0.1)
            (temporalSignature lit) e)"
proof -
  assume a: "interact ty (Data d) lit e = (r, lit', e')"
  let ?i = "(case d of None \<Rightarrow> Fin 0.1 | Some n \<Rightarrow> if truthy (JNum n) then n else Fin 0.1)"
  let ?ts = "fst (ts_record ty ?i (temporalSignature lit) e)"
  let ?e1 = "snd (ts_record ty ?i (temporalSignature lit) e)"
  obtain s where "updateState (lit\<lparr>temporalSignature := ?ts\<rparr>) ?e1 =
      (lit\<lparr>temporalSignature := ?ts\<rparr>\<lparr>state := s\<rparr>, ?e1\<lparr>reads := Suc (reads ?e1)\<rparr>)"
    using updateState_shape by blast
  then have "lit' = lit\<lparr>temporalSignature := ?ts, state := s\<rparr>"
    using a by (simp add: interact_def Let_def split_def)
  then show ?thesis by simp
qed

lemma relate_fields:
  "relate other ty lit e = (err, lit', e') \<Longrightarrow>
   lit_id lit' = lit_id lit \<and> lit_type lit' = lit_type lit \<and> content lit' = content lit \<and>
   coherenceField lit' = coherenceField lit \<and> agentSystem lit' = agentSystem lit \<and>
   state lit' = state lit"
  by (auto simp: relate_def Let_def split_def split: option.splits)

lemma relate_all_other:
  "fused \<notin> set lits \<Longrightarrow>
   fst (relate_all lits fused h e) ! fused = h ! fused \<and>
   length (fst (relate_all lits fused h e)) = length h"
proof (induction lits arbitrary: h e)
  case Nil
  then show ?case by simp
next
  case (Cons a lits)
  then show ?case
    by (simp add: split_def Let_def)
qed

lemma valid_refs_resolved:
  assumes "valid_refs c h"
  shows "\<forall>l \<in> set (List.map_filter (find c) ids). l < length h"
proof
  fix l assume "l \<in> set (List.map_filter (find c) ids)"
  then obtain i where "find c i = Some l"
    by (auto simp: List.map_filter_def)
  then have "(i, l) \<in> set (registry c)"
    by (simp add: find_def map_of_SomeD)
  then show "l < length h"
    using assms by (auto simp: valid_refs_def list_all_iff)
qed


lemma count_usage_fields [simp]:
  "litComposer (count_usage key p eng) = litComposer eng"
  "fusionHistory (count_usage key p eng) = fusionHistory eng"
  by (simp_all add: count_usage_def)

lemma fuse_execute_outcome:
  fixes h :: heap and lits :: "nat list" and eng :: XenialFusionEngine
    and key :: jsstring and p :: FusionPattern
  defines "objs \<equiv> map (\<lambda>lit. h ! lit) lits"
  defines "eng1 \<equiv> count_usage key p eng"
  assumes v: "\<forall>l \<in> set lits. l < length h"
  shows "(\<exists>err. fst (fusionLogic p objs e) = Inl err \<and>
            fuse_execute key p lits ids eng h e = (Inl err, eng1, h, snd (fusionLogic p objs e))) \<or>
         (\<exists>cfg L e2. fst (fusionLogic p objs e) = Inr cfg \<and>
            LIT_new cfg (snd (fusionLogic p objs e)) = (Inr L, e2) \<and>
            list_ex (\<lambda>lit. content lit = JUndefined) objs \<and>
            fuse_execute key p lits ids eng h e =
              (Inl TypeError,
               eng1\<lparr>litComposer := (litComposer eng)\<lparr>registry :=
                  AList.update (lit_id L) (length h) (registry (litComposer eng))\<rparr>\<rparr>,
               h @ [L], e2)) \<or>
         (\<exists>cfg L e2 em e3 r boosted e4 h3 e5 eng'.
            fst (fusionLogic p objs e) = Inr cfg \<and>
            LIT_new cfg (snd (fusionLogic p objs e)) = (Inr L, e2) \<and>
            \<not> list_ex (\<lambda>lit. content lit = JUndefined) objs \<and>
            EmergenceMetrics_calculate objs L e2 = (Inr em, e3) \<and>
            interact (js ''fusion'') (Data (Some (emergenceScore em))) L e3 = (r, boosted, e4) \<and>
            relate_all lits (length h) (h @ [boosted]) e4 = (h3, e5) \<and>
            litComposer eng' = (litComposer eng)\<lparr>registry :=
                  AList.update (lit_id L) (length h) (registry (litComposer eng))\<rparr> \<and>
            fusionPatterns eng' = fusionPatterns eng1 \<and>
            length (fusionHistory eng') = Suc (length (fusionHistory eng)) \<and>
            fuse_execute key p lits ids eng h e =
              (Inr \<lparr>fusedLIT = length h, emergence = em, pattern = fp_name p\<rparr>, eng', h3,
               snd (Date_now e5)))"
proof (cases "fst (fusionLogic p objs e)")
  case (Inl err)
  then have "fuse_execute key p lits ids eng h e = (Inl err, eng1, h, snd (fusionLogic p objs e))"
    by (simp add: fuse_execute_def Let_def split_def objs_def eng1_def)
  then show ?thesis using Inl by blast
next
  case (Inr cfg)
  let ?e1 = "snd (fusionLogic p objs e)"
  let ?c = "litComposer eng"
  obtain L e2 where n: "LIT_new cfg ?e1 = (Inr L, e2)"
    and c: "compose cfg ?c h ?e1 =
       (Inr (length h), ?c\<lparr>registry := AList.update (lit_id L) (length h) (registry ?c)\<rparr>,
        h @ [L], e2)"
    using compose_result [of cfg ?e1 ?c h] by blast
  have o: "map (\<lambda>lit. (h @ [L]) ! lit) lits = objs"
    using v by (simp add: objs_def nth_append)
  have l: "(h @ [L]) ! length h = L"
    by simp
  have cl: "content L \<noteq> JUndefined"
    using LIT_new_fields(4) [OF n] or_else_object_not_nullish [of "cfg_content cfg"]
    by (auto simp: nullish_def)
  show ?thesis
  proof (cases "list_ex (\<lambda>lit. content lit = JUndefined) objs")
    case True
    then have "fst (EmergenceMetrics_calculate objs L e2) = Inl TypeError"
      "snd (EmergenceMetrics_calculate objs L e2) = e2"
      by (simp_all add: EmergenceMetrics_calculate_def)
    then have em: "EmergenceMetrics_calculate objs L e2 = (Inl TypeError, e2)"
      by (metis prod.collapse)
    have "fuse_execute key p lits ids eng h e =
              (Inl TypeError,
               eng1\<lparr>litComposer := ?c\<lparr>registry :=
                  AList.update (lit_id L) (length h) (registry ?c)\<rparr>\<rparr>,
               h @ [L], e2)"
      using Inr
      by (simp add: fuse_execute_def Let_def split_def objs_def [symmetric] eng1_def [symmetric])
         (simp add: eng1_def c o l em)
    then show ?thesis using Inr n True by blast
  next
    case False
    then obtain em e3 where em: "EmergenceMetrics_calculate objs L e2 = (Inr em, e3)"
      using cl EmergenceMetrics_calculate_Inl [of objs L e2]
      by (cases "EmergenceMetrics_calculate objs L e2"; cases "fst (EmergenceMetrics_calculate objs L e2)")
         auto
    obtain r boosted e4 where i: "interact (js ''fusion'') (Data (Some (emergenceScore em))) L e3 = (r, boosted, e4)"
      by (cases "interact (js ''fusion'') (Data (Some (emergenceScore em))) L e3") auto
    obtain h3 e5 where ra: "relate_all lits (length h) (h @ [boosted]) e4 = (h3, e5)"
      by (cases "relate_all lits (length h) (h @ [boosted]) e4") auto
    have "\<exists>eng'. litComposer eng' = ?c\<lparr>registry :=
                  AList.update (lit_id L) (length h) (registry ?c)\<rparr> \<and>
            fusionPatterns eng' = fusionPatterns eng1 \<and>
            length (fusionHistory eng') = Suc (length (fusionHistory eng)) \<and>
            fuse_execute key p lits ids eng h e =
              (Inr \<lparr>fusedLIT = length h, emergence = em, pattern = fp_name p\<rparr>, eng', h3,
               snd (Date_now e5))"
      using Inr
      by (simp add: fuse_execute_def Let_def split_def objs_def [symmetric] eng1_def [symmetric])
         (simp add: eng1_def c o l em i ra split_def Let_def)
    then show ?thesis using Inr n False em i ra by blast
  qed
qed

subsection \<open>Fusion needs two LITs\<close>

text \<open>
  Claim C3. For every call \<open>fuse(litIDs, patternName)\<close> in which fewer than two of the
  given identifiers resolve to LITs registered in the composer, \<open>fuse\<close> throws the error
  "Fusion requires at least 2 LITs", and no fused LIT is created: the engine, the
  composer and every LIT are as before.
\<close>

theorem fuse_requires_two:
  "length (List.map_filter (find (litComposer eng)) litIDs) < 2 \<Longrightarrow>
   fuse litIDs patternName eng h e = (Inl FusionTooFew, eng, h, e)"
  by (simp add: fuse_def)

theorem fuse_requires_two_witness:
  "length (List.map_filter (find (litComposer ex_engine)) [js ''a'', js ''zz'']) < 2 \<and>
   fuse [js ''a'', js ''zz''] None ex_engine ex_heap ex_env =
     (Inl FusionTooFew, ex_engine, ex_heap, ex_env)"
proof -
  have h: "length (List.map_filter (find (litComposer ex_engine)) [js ''a'', js ''zz'']) < 2"
    by (simp add: ex_engine_composer List.map_filter_def ex_find)
  show ?thesis
    using h fuse_requires_two [OF h] by simp
qed

subsection \<open>The consistency measure\<close>

lemma measureConsistency_string:
  "measureConsistency (JStr s) =
     Fin (min 1 (real (card (set (split_ws s))) / real (length (split_ws s))))"
proof -
  have "length (split_ws s) \<noteq> 0"
    using split_from_nonempty [of "[]" s] by (simp add: split_ws_def)
  then show ?thesis
    by (simp add: measureConsistency_def typeof_def Let_def Math_min_Fin
        length_remdups_card_conv)
qed

lemma measureConsistency_object:
  "measureConsistency (JObj kvs) =
     Fin (real (length (filter (\<lambda>k. get_own (JObj kvs) k \<noteq> JUndefined \<and>
                                     get_own (JObj kvs) k \<noteq> JNull)
                          (Object_keys (JObj kvs)))) /
          max 1 (real (length (Object_keys (JObj kvs)))))"
  by (auto simp: measureConsistency_def typeof_def Let_def Math_max_Fin js_def max_def)

lemma measureConsistency_array:
  "measureConsistency (JArr xs) =
     Fin (real (length (filter (\<lambda>k. get_own (JArr xs) k \<noteq> JUndefined \<and>
                                     get_own (JArr xs) k \<noteq> JNull)
                          (Object_keys (JArr xs)))) /
          max 1 (real (length (Object_keys (JArr xs)))))"
  by (auto simp: measureConsistency_def typeof_def Let_def Math_max_Fin js_def max_def)

text \<open>
  Claim C7. For a string content, \<open>measureConsistency\<close> returns \<open>min(1, u / w)\<close>, where
  \<open>w\<close> is the number of words obtained by splitting the content on white space and \<open>u\<close>
  the number of distinct such words. For an object (or array) content it returns the
  number of keys whose value is neither \<open>null\<close> nor \<open>undefined\<close>, divided by
  \<open>max(1, number of keys)\<close>.
\<close>

theorem measureConsistency_ratio:
  "measureConsistency (JStr s) =
     Fin (min 1 (real (card (set (split_ws s))) / real (length (split_ws s)))) \<and>
   measureConsistency (JObj kvs) =
     Fin (real (length (filter (\<lambda>k. get_own (JObj kvs) k \<noteq> JUndefined \<and>
                                     get_own (JObj kvs) k \<noteq> JNull)
                          (Object_keys (JObj kvs)))) /
          max 1 (real (length (Object_keys (JObj kvs))))) \<and>
   measureConsistency (JArr xs) =
     Fin (real (length (filter (\<lambda>k. get_own (JArr xs) k \<noteq> JUndefined \<and>
                                     get_own (JArr xs) k \<noteq> JNull)
                          (Object_keys (JArr xs)))) /
          max 1 (real (length (Object_keys (JArr xs)))))"
  by (simp only: measureConsistency_string measureConsistency_object measureConsistency_array)


subsection \<open>The ranges of the coherence measures\<close>

text \<open>
  Consistency, resonance and entropy of a coherence field lie between 0 and 1, and its
  coherence score between 0.08 and 1.
\<close>

lemma in_unit_Fin: "in_unit x = (\<exists>a. x = Fin a \<and> 0 \<le> a \<and> a \<le> 1)"
  by (cases x) auto

lemma measureConsistency_unit: "in_unit (measureConsistency c)"
proof -
  have f: "real (length (filter P ys)) / max 1 (real (length ys)) \<le> 1"
    for P and ys :: "jsstring list"
  proof -
    have "real a / max 1 (real b) \<le> 1" if "a \<le> b" for a b :: nat
      using that by (auto simp: divide_le_eq max_def)
    then show ?thesis
      using length_filter_le by blast
  qed
  show ?thesis
  proof (cases c)
    case (JStr s)
    then show ?thesis
      by (simp add: measureConsistency_string divide_nonneg_nonneg)
  next
    case (JArr xs)
    then show ?thesis
      using f by (simp add: measureConsistency_array divide_nonneg_nonneg)
  next
    case (JObj kvs)
    then show ?thesis
      using f by (simp add: measureConsistency_object divide_nonneg_nonneg)
  qed (simp_all add: measureConsistency_def typeof_def js_def)
qed

lemma measureResonance_unit: "measureResonance c = Inr r \<Longrightarrow> in_unit r"
  by (auto simp: measureResonance_def Let_def split: if_splits)

lemma length_code_points: "length (code_points s) \<le> length s"
  by (induction s rule: code_points.induct) auto

lemma entropy_fold:
  assumes "0 < t" and "\<forall>n \<in> set ns. 0 < n \<and> real n \<le> t" and "0 \<le> a"
  shows "\<exists>b. 0 \<le> b \<and>
    foldl (\<lambda>entropy count.
             (let probability = jdiv (Fin (real count)) (Fin t)
              in jsub entropy (jmul probability (Math_log2 probability))))
      (Fin a) ns = Fin b"
  using assms
proof (induction ns arbitrary: a)
  case Nil
  then show ?case by simp
next
  case (Cons n ns)
  let ?p = "real n / t"
  have p: "0 < ?p" "?p \<le> 1"
    using Cons.prems by auto
  then have "log 2 ?p \<le> 0"
    by (simp add: zero_less_divide_iff)
  then have "?p * log 2 ?p \<le> 0"
    using p by (intro mult_nonneg_nonpos) auto
  then have a': "0 \<le> a - ?p * log 2 ?p"
    using Cons.prems by simp
  have step: "(let probability = jdiv (Fin (real n)) (Fin t)
              in jsub (Fin a) (jmul probability (Math_log2 probability))) = Fin (a - ?p * log 2 ?p)"
    using Cons.prems p by (simp add: Let_def jsub_def)
  have "\<forall>n \<in> set ns. 0 < n \<and> real n \<le> t"
    using Cons.prems(2) by simp
  from Cons.IH [OF Cons.prems(1) this a'] show ?case
    by (simp only: foldl_Cons step)
qed

lemma measureEntropy_unit: "measureEntropy e c = Inr x \<Longrightarrow> in_unit x"
proof -
  assume a: "measureEntropy e c = Inr x"
  then have c: "c \<noteq> JUndefined"
    by (auto simp: measureEntropy_def JSON_stringify_def)
  let ?s = "stringify_value e c"
  let ?chars = "code_points ?s"
  show ?thesis
  proof (cases "?chars = []")
    case True
    then show ?thesis
      using a c by (auto simp: measureEntropy_def JSON_stringify_def Let_def Math_min_Fin)
  next
    case False
    then have t: "0 < real (length ?s)"
      using length_code_points [of ?s] by (cases ?s) auto
    have "\<forall>n \<in> set (map (\<lambda>c. count_list ?chars c) (remdups ?chars)).
            0 < n \<and> real n \<le> real (length ?s)"
    proof
      fix n assume "n \<in> set (map (\<lambda>c. count_list ?chars c) (remdups ?chars))"
      then obtain ch where ch: "ch \<in> set ?chars" "n = count_list ?chars ch"
        by auto
      have "n \<le> length ?chars"
        using ch count_le_length by simp
      moreover have "n \<noteq> 0"
        using ch by (simp add: count_list_0_iff)
      ultimately show "0 < n \<and> real n \<le> real (length ?s)"
        using length_code_points [of ?s] by simp
    qed
    from entropy_fold [OF t this, of 0]
    obtain b where b: "0 \<le> b"
      "foldl (\<lambda>entropy count.
             (let probability = jdiv (Fin (real count)) (Fin (real (length ?s)))
              in jsub entropy (jmul probability (Math_log2 probability))))
         (Fin 0) (map (\<lambda>c. count_list ?chars c) (remdups ?chars)) = Fin b"
      by auto
    have "x = Math_min (Fin 1) (jdiv (Fin b) (Fin 8))"
      using a c b(2) by (simp add: measureEntropy_def JSON_stringify_def Let_def)
    then show ?thesis
      using b(1) by (simp add: Math_min_Fin)
  qed
qed

lemma coherenceScore_bounds:
  assumes "in_unit (consistency cf)" "in_unit (resonance cf)" "in_unit (entropy cf)"
  shows "\<exists>a. coherenceScore cf = Fin a \<and> 2 / 25 \<le> a \<and> a \<le> 1"
proof -
  obtain c r h where x: "consistency cf = Fin c" "0 \<le> c" "c \<le> 1"
    "resonance cf = Fin r" "0 \<le> r" "r \<le> 1" "entropy cf = Fin h" "0 \<le> h" "h \<le> 1"
    using assms by (auto simp: in_unit_Fin)
  define opt where "opt = 1 - \<bar>0.6 - h\<bar>"
  have "\<bar>0.6 - h\<bar> \<le> 0.6"
    using x by (intro abs_leI) auto
  then have o: "0.4 \<le> opt" "opt \<le> 1"
    by (auto simp: opt_def)
  have "coherenceScore cf = Fin (c * 0.4 + r * 0.4 + opt * 0.2)"
    by (simp add: coherenceScore_def x jsub_def Let_def opt_def)
  moreover have "2 / 25 \<le> c * 0.4 + r * 0.4 + opt * 0.2"
    using x o by simp
  moreover have "c * 0.4 + r * 0.4 + opt * 0.2 \<le> 1"
    using x o by simp
  ultimately show ?thesis by blast
qed

lemma CoherenceField_new_unit:
  assumes "CoherenceField_new e c = Inr cf"
  shows "consistency cf = measureConsistency c" "measureResonance c = Inr (resonance cf)"
    "in_unit (consistency cf)" "in_unit (resonance cf)" "in_unit (entropy cf)"
  using assms measureConsistency_unit [of c]
  by (auto simp: CoherenceField_new_def Let_def split: sum.splits
      dest: measureResonance_unit measureEntropy_unit)



subsection \<open>The engine and the example inputs\<close>

lemma engine_new_patterns:
  "fusionPatterns (XenialFusionEngine_new c) =
     [(js ''Harmonic Synthesis'',
       FusionPattern_new (js ''Harmonic Synthesis'')
         (js ''Combines related knowledge into coherent understanding'') harmonicSynthesis),
      (js ''Processual Integration'',
       FusionPattern_new (js ''Processual Integration'')
         (js ''Integrates knowledge into executable processes'') processualIntegration),
      (js ''Creative Amplification'',
       FusionPattern_new (js ''Creative Amplification'')
         (js ''Combines generative patterns to create novel outputs'') creativeAmplification),
      (js ''Xenial Transcendence'',
       FusionPattern_new (js ''Xenial Transcendence'')
         (js ''Fuses high-coherence LITs into transcendent patterns'') xenialTranscendence)]"
proof -
  have d: "js ''Harmonic Synthesis'' \<noteq> js ''Processual Integration''"
    "js ''Harmonic Synthesis'' \<noteq> js ''Creative Amplification''"
    "js ''Harmonic Synthesis'' \<noteq> js ''Xenial Transcendence''"
    "js ''Processual Integration'' \<noteq> js ''Creative Amplification''"
    "js ''Processual Integration'' \<noteq> js ''Xenial Transcendence''"
    "js ''Creative Amplification'' \<noteq> js ''Xenial Transcendence''"
    by (simp_all add: js_def)
  show ?thesis
    using d
    by (simp add: XenialFusionEngine_new_def initializeDefaultPatterns_def registerPattern_def
        Let_def FusionPattern_new_def)
qed

lemma engine_new_fields [simp]:
  "litComposer (XenialFusionEngine_new c) = c"
  "fusionHistory (XenialFusionEngine_new c) = []"
  by (simp_all add: XenialFusionEngine_new_def initializeDefaultPatterns_def registerPattern_def
      Let_def)

lemma engine_new_intact: "defaults_intact (XenialFusionEngine_new c)"
proof -
  have d: "js ''Harmonic Synthesis'' \<noteq> js ''Processual Integration''"
    "js ''Harmonic Synthesis'' \<noteq> js ''Creative Amplification''"
    "js ''Harmonic Synthesis'' \<noteq> js ''Xenial Transcendence''"
    "js ''Processual Integration'' \<noteq> js ''Creative Amplification''"
    "js ''Processual Integration'' \<noteq> js ''Xenial Transcendence''"
    "js ''Creative Amplification'' \<noteq> js ''Xenial Transcendence''"
    by (simp_all add: js_def)
  show ?thesis
    using d
    by (simp add: defaults_intact_def engine_new_patterns is_default_def default_logics_def
        FusionPattern_new_def)
qed



lemma ex_lits:
  "List.map_filter (find (litComposer ex_engine)) [js ''a'', js ''b''] = [0, 1]"
  by (simp add: ex_engine_composer List.map_filter_def ex_find)

lemma ex_heap_length: "length ex_heap = 2"
proof -
  obtain A B where h: "ex_heap = [A, B]"
    using ex_heap_eq by blast
  show ?thesis
    by (subst h) simp
qed

lemma ex_valid_refs: "valid_refs (litComposer ex_engine) ex_heap"
  by (simp add: valid_refs_def ex_engine_composer ex_registry ex_heap_length)

lemma knowledge_content:
  "or_else (cfg_content (knowledge_config i t k)) (JObj []) = cfg_content (knowledge_config i t k)"
  by (simp add: knowledge_config_def or_else_def)

lemma ex_contents:
  "content (ex_heap ! 0) = cfg_content (knowledge_config ''a'' ''Waves'' ''alpha'')"
  "content (ex_heap ! Suc 0) = cfg_content (knowledge_config ''b'' ''Particles'' ''beta'')"
proof -
  obtain A B where h: "ex_heap = [A, B]"
    and a: "LIT_new (knowledge_config ''a'' ''Waves'' ''alpha'') env0 = (Inr A, env0\<lparr>reads := 3\<rparr>)"
    and b: "LIT_new (knowledge_config ''b'' ''Particles'' ''beta'') (env0\<lparr>reads := 3\<rparr>) =
       (Inr B, env0\<lparr>reads := 6\<rparr>)"
    using ex_heap_eq by blast
  show "content (ex_heap ! 0) = cfg_content (knowledge_config ''a'' ''Waves'' ''alpha'')"
    using LIT_new_fields(4) [OF a] by (simp add: h knowledge_content)
  show "content (ex_heap ! Suc 0) = cfg_content (knowledge_config ''b'' ''Particles'' ''beta'')"
    using LIT_new_fields(4) [OF b] by (simp add: h knowledge_content)
qed


subsection \<open>Errors leave the state as it is\<close>





subsection \<open>The error conditions\<close>

lemma thrown_Some [simp]: "(thrown r = Some err) = (r = Inl err)"
  by (cases r) (simp_all add: thrown_def)















subsection \<open>The state of a LIT\<close>

lemma calculateValue_state [simp]: "calculateValue (lit\<lparr>state := s\<rparr>) e = calculateValue lit e"
  by (simp add: calculateValue_def)

lemma classify_matches:
  "state_matches
     (if jlt v (Fin 0.2) then js ''decaying''
      else if jlt v (Fin 0.4) then js ''nascent''
      else if jlt v (Fin 0.6) then js ''stable''
      else if jlt v (Fin 0.8) then js ''resonant''
      else js ''transcendent'') v"
  by (cases v) (auto simp: state_matches_def)

lemma updateState_matches:
  assumes "updateState lit e = (lit', e')"
  shows "state_matches (state lit') (fst (calculateValue lit' e))"
    and "lit' = lit\<lparr>state := state lit'\<rparr>" and "e' = e\<lparr>reads := Suc (reads e)\<rparr>"
proof -
  show l: "lit' = lit\<lparr>state := state lit'\<rparr>" and "e' = e\<lparr>reads := Suc (reads e)\<rparr>"
    using updateState_fields [OF assms] by auto
  have "state lit' =
     (if jlt (fst (calculateValue lit e)) (Fin 0.2) then js ''decaying''
      else if jlt (fst (calculateValue lit e)) (Fin 0.4) then js ''nascent''
      else if jlt (fst (calculateValue lit e)) (Fin 0.6) then js ''stable''
      else if jlt (fst (calculateValue lit e)) (Fin 0.8) then js ''resonant''
      else js ''transcendent'')"
    using assms by (auto simp: updateState_def Let_def split_def)
  moreover have "calculateValue lit' e = calculateValue lit e"
    by (subst l) simp
  ultimately show "state_matches (state lit') (fst (calculateValue lit' e))"
    using classify_matches [of "fst (calculateValue lit e)"] by simp
qed


lemma env_back: "e' = e\<lparr>reads := reads e + n\<rparr> \<Longrightarrow> e'\<lparr>reads := reads e' - n\<rparr> = e"
  by simp

lemma LIT_new_updateState:
  "LIT_new cfg e = (Inr lit, e') \<Longrightarrow> \<exists>lit0 e0. updateState lit0 e0 = (lit, e')"
  by (auto simp: LIT_new_def Let_def split_def split: sum.splits intro: prod.collapse [symmetric])

lemma interact_updateState:
  "interact ty data lit0 e = (Inr r, lit, e') \<Longrightarrow>
   \<exists>lit1 e0. updateState lit1 e0 = (lit, e0\<lparr>reads := Suc (reads e0)\<rparr>) \<and>
     e' = e0\<lparr>reads := reads e0 + 2\<rparr>"
proof -
  assume "interact ty data lit0 e = (Inr r, lit, e')"
  then obtain d where a: "interact ty (Data d) lit0 e = (Inr r, lit, e')"
    by (cases data) (auto simp: interact_def)
  let ?i = "(case d of None \<Rightarrow> Fin 0.1 | Some n \<Rightarrow> if truthy (JNum n) then n else Fin 0.1)"
  let ?ts = "fst (ts_record ty ?i (temporalSignature lit0) e)"
  let ?e1 = "snd (ts_record ty ?i (temporalSignature lit0) e)"
  let ?l = "lit0\<lparr>temporalSignature := ?ts\<rparr>"
  obtain l1 e2 where u: "updateState ?l ?e1 = (l1, e2)"
    by (cases "updateState ?l ?e1") auto
  have e2: "e2 = ?e1\<lparr>reads := Suc (reads ?e1)\<rparr>"
    using updateState_fields [OF u] by simp
  have "lit = l1" "e' = snd (calculateValue l1 e2)"
    using a u by (auto simp: interact_def Let_def split_def)
  then show ?thesis
    using u e2 by (auto simp: calculateValue_env)
qed

lemma transform_updateState:
  "transform f lit0 e = (None, lit, e') \<Longrightarrow> \<exists>lit1 e0. updateState lit1 e0 = (lit, e')"
  by (auto simp: transform_def Let_def split_def split: sum.splits prod.splits
      intro: prod.collapse [symmetric])

text \<open>
  Claim C10. After the construction of a LIT and after every \<open>interact\<close> or \<open>transform\<close>
  call that returns, the state of the LIT is one of \<open>decaying\<close>, \<open>nascent\<close>, \<open>stable\<close>,
  \<open>resonant\<close> and \<open>transcendent\<close>, chosen from the value \<open>v\<close> that \<open>calculateValue\<close>
  computes for the LIT at the clock reading \<open>updateState\<close> makes (the last reading of
  the constructor and of \<open>transform\<close>, the one before the last of \<open>interact\<close>):
  \<open>decaying\<close> if \<open>v < 0.2\<close>, \<open>nascent\<close> if \<open>0.2 <= v < 0.4\<close>, \<open>stable\<close> if
  \<open>0.4 <= v < 0.6\<close>, \<open>resonant\<close> if \<open>0.6 <= v < 0.8\<close> and \<open>transcendent\<close> if
  \<open>v >= 0.8\<close>. A value that is \<open>NaN\<close> lies in none of the intervals; the state is then
  \<open>transcendent\<close>.
\<close>

theorem state_classification:
  "(LIT_new cfg e = (Inr lit, e') \<longrightarrow>
      state_matches (state lit) (fst (calculateValue lit (e'\<lparr>reads := reads e' - 1\<rparr>)))) \<and>
   (interact ty d lit0 e = (Inr r, lit, e') \<longrightarrow>
      state_matches (state lit) (fst (calculateValue lit (e'\<lparr>reads := reads e' - 2\<rparr>)))) \<and>
   (transform f lit0 e = (None, lit, e') \<longrightarrow>
      state_matches (state lit) (fst (calculateValue lit (e'\<lparr>reads := reads e' - 1\<rparr>))))"
proof (intro conjI impI)
  assume "LIT_new cfg e = (Inr lit, e')"
  then obtain l0 e0 where u: "updateState l0 e0 = (lit, e')"
    using LIT_new_updateState by blast
  have "e'\<lparr>reads := reads e' - 1\<rparr> = e0"
    using updateState_matches(3) [OF u] by simp
  then show "state_matches (state lit) (fst (calculateValue lit (e'\<lparr>reads := reads e' - 1\<rparr>)))"
    using updateState_matches(1) [OF u] by simp
next
  assume "interact ty d lit0 e = (Inr r, lit, e')"
  then obtain l1 e0 where u: "updateState l1 e0 = (lit, e0\<lparr>reads := Suc (reads e0)\<rparr>)"
    and e: "e' = e0\<lparr>reads := reads e0 + 2\<rparr>"
    using interact_updateState by blast
  have "e'\<lparr>reads := reads e' - 2\<rparr> = e0"
    using env_back [OF e] .
  then show "state_matches (state lit) (fst (calculateValue lit (e'\<lparr>reads := reads e' - 2\<rparr>)))"
    using updateState_matches(1) [OF u] by simp
next
  assume "transform f lit0 e = (None, lit, e')"
  then obtain l0 e0 where u: "updateState l0 e0 = (lit, e')"
    using transform_updateState by blast
  have "e'\<lparr>reads := reads e' - 1\<rparr> = e0"
    using updateState_matches(3) [OF u] by simp
  then show "state_matches (state lit) (fst (calculateValue lit (e'\<lparr>reads := reads e' - 1\<rparr>)))"
    using updateState_matches(1) [OF u] by simp
qed


subsection \<open>The scores of the example LITs\<close>

lemma knowledge_consistency:
  "measureConsistency (cfg_content (knowledge_config i t k)) = Fin 1"
  by (simp add: knowledge_config_def measureConsistency_object Object_keys_def Object_entries_def
      get_own_def js_def)

lemma knowledge_resonance:
  "measureResonance (cfg_content (knowledge_config i t k)) = Inr (Fin 0.4)"
  by (simp add: knowledge_config_def measureResonance_def nullish_def get_prop_def Let_def js_def)

lemma knowledge_coherence:
  assumes "LIT_new (knowledge_config i t k) e = (Inr lit, e')"
  shows "\<exists>a. coherenceScore (coherenceField lit) = Fin a \<and> 0.64 \<le> a \<and> a \<le> 0.76"
proof -
  let ?c = "cfg_content (knowledge_config i t k)"
  have cf: "CoherenceField_new e ?c = Inr (coherenceField lit)"
    using LIT_new_fields(1,4) [OF assms] by (simp add: knowledge_content)
  have c: "consistency (coherenceField lit) = Fin 1"
    using CoherenceField_new_unit(1) [OF cf] by (simp add: knowledge_consistency)
  have r: "resonance (coherenceField lit) = Fin 0.4"
    using CoherenceField_new_unit(2) [OF cf] by (simp add: knowledge_resonance)
  obtain x where x: "entropy (coherenceField lit) = Fin x" "0 \<le> x" "x \<le> 1"
    using CoherenceField_new_unit(5) [OF cf] by (auto simp: in_unit_Fin)
  define opt where "opt = 1 - \<bar>0.6 - x\<bar>"
  have "\<bar>0.6 - x\<bar> \<le> 0.6"
    using x by (intro abs_leI) auto
  then have o: "0.4 \<le> opt" "opt \<le> 1"
    by (auto simp: opt_def)
  have "coherenceScore (coherenceField lit) = Fin (0.56 + opt * 0.2)"
    by (simp add: coherenceScore_def c r x jsub_def Let_def opt_def)
  moreover have "0.64 \<le> 0.56 + opt * 0.2" "0.56 + opt * 0.2 \<le> 0.76"
    using o by simp_all
  ultimately show ?thesis by blast
qed

lemma fresh_value:
  assumes "interactions (temporalSignature lit) = []"
    and "persistence (temporalSignature lit) = Fin 0"
    and "agentSystem lit = AgentSystem_new caps"
    and "relations lit = []"
    and "coherenceScore (coherenceField lit) = Fin a" and "0 \<le> a" and "a \<le> 1"
  shows "fst (calculateValue lit e) = Fin (a * 0.4)"
proof -
  have h: "halfLife (temporalSignature lit) = Fin 86400000"
    by (simp add: halfLife_def assms Let_def)
  have t: "fst (temporalValue (temporalSignature lit) e) = Fin 0"
    by (simp add: temporalValue_def Date_now_def Let_def h assms)
  have g: "agencyScore (AgentSystem_new caps) = Fin 0"
    by (simp add: agencyScore_def AgentSystem_new_def)
  have m: "min 1 (a * 0.4) = a * 0.4"
    using assms by simp
  have "fst (calculateValue lit e) =
     Math_min (Fin 1) (jmul (jadd (jadd (jmul (Fin a) (Fin 0.4)) (jmul (Fin 0) (Fin 0.35)))
        (jmul (Fin 0) (Fin 0.25))) (jadd (Fin 1) (jdiv (Math_log (jadd (Fin 1) (Fin 0))) (Fin 5))))"
    by (simp add: calculateValue_def split_def Let_def t g assms(3,4,5))
  also have "\<dots> = Fin (min 1 (a * 0.4))"
    by (simp add: Math_min_Fin)
  finally show ?thesis
    using m by simp
qed

lemma knowledge_value:
  assumes "LIT_new (knowledge_config i t k) e = (Inr lit, e')"
  shows "\<exists>v. fst (calculateValue lit e2) = Fin v \<and> 0.256 \<le> v \<and> v \<le> 0.304"
proof -
  obtain a where a: "coherenceScore (coherenceField lit) = Fin a" "0.64 \<le> a" "a \<le> 0.76"
    using knowledge_coherence [OF assms] by blast
  have r: "relations lit = []"
    using LIT_new_fields(8) [OF assms] by (simp add: knowledge_config_def)
  have "fst (calculateValue lit e2) = Fin (a * 0.4)"
    using a LIT_new_fields(6,7) [OF assms] r
    by (intro fresh_value) auto
  moreover have "0.256 \<le> a * 0.4" "a * 0.4 \<le> 0.304"
    using a by simp_all
  ultimately show ?thesis by blast
qed

theorem state_classification_witness:
  "LIT_new (knowledge_config ''a'' ''Waves'' ''alpha'') env0 = (Inr (ex_heap ! 0), env0\<lparr>reads := 3\<rparr>) \<and>
   state_matches (state (ex_heap ! 0)) (fst (calculateValue (ex_heap ! 0) (env0\<lparr>reads := 2\<rparr>))) \<and>
   state (ex_heap ! 0) = js ''nascent''"
proof -
  obtain A B where h: "ex_heap = [A, B]"
    and a: "LIT_new (knowledge_config ''a'' ''Waves'' ''alpha'') env0 = (Inr A, env0\<lparr>reads := 3\<rparr>)"
    using ex_heap_eq by blast
  have h0: "ex_heap ! 0 = A"
    by (subst h) simp
  have m: "state_matches (state A) (fst (calculateValue A (env0\<lparr>reads := 2\<rparr>)))"
    using a state_classification [where cfg = "knowledge_config ''a'' ''Waves'' ''alpha''"
        and e = env0 and lit = A and e' = "env0\<lparr>reads := 3\<rparr>"]
    by simp
  obtain v where v: "fst (calculateValue A (env0\<lparr>reads := 2\<rparr>)) = Fin v" "0.256 \<le> v" "v \<le> 0.304"
    using knowledge_value [OF a] by blast
  have "state A = js ''nascent''"
    using m v by (simp add: state_matches_def)
  then show ?thesis
    using a m by (simp add: h0)
qed



subsection \<open>The pattern chosen by the engine\<close>

lemma selectFusionPatternName_default:
  "fst (selectFusionPatternName lits e) \<in> set (map fst default_logics)"
  by (simp add: selectFusionPatternName_def split_def Let_def default_logics_def)

lemma harmonicSynthesis_error:
  "fst (harmonicSynthesis objs e) = Inl err \<Longrightarrow> err = TypeError"
  by (simp add: harmonicSynthesis_def split_def Let_def split: if_splits)

lemma spread_error: "spread v = Inl err \<Longrightarrow> err = TypeError"
  by (cases v) (simp_all add: spread_def)

lemma processualIntegration_error:
  "fst (processualIntegration objs e) = Inl err \<Longrightarrow> err = TypeError"
  by (auto simp: processualIntegration_def split_def Let_def
      split: if_splits sum.splits dest: spread_error)

lemma creativeAmplification_error:
  "fst (creativeAmplification objs e) = Inl err \<Longrightarrow> err = TypeError"
  by (simp add: creativeAmplification_def split_def Let_def split: if_splits)

lemma xenialTranscendence_error:
  "fst (xenialTranscendence objs e) = Inl err \<Longrightarrow> False"
  by (simp add: xenialTranscendence_def split_def Let_def)

lemma default_logic_error:
  "(n, l) \<in> set default_logics \<Longrightarrow> fst (l objs e) = Inl err \<Longrightarrow> err = TypeError"
  by (auto simp: default_logics_def
      dest: harmonicSynthesis_error processualIntegration_error creativeAmplification_error
        xenialTranscendence_error)

lemma defaults_lookup:
  assumes "defaults_intact eng" and "(n, l) \<in> set default_logics"
  shows "\<exists>p. map_of (fusionPatterns eng) n = Some p \<and> fusionLogic p = l \<and> fp_name p = n"
proof -
  have "is_default eng (n, l)"
    using assms by (auto simp: defaults_intact_def list_all_iff)
  then obtain p where p: "map_of (fusionPatterns eng) n = Some p" "fusionLogic p = l"
    by (auto simp: is_default_def split: option.splits)
  then have "(n, p) \<in> set (fusionPatterns eng)"
    by (simp add: map_of_SomeD)
  then have "fp_name p = n"
    using assms(1) by (auto simp: defaults_intact_def list_all_iff)
  then show ?thesis
    using p by blast
qed

text \<open>
  Claim C9. For every list of LITs, \<open>selectFusionPattern\<close> returns a pattern registered by
  \<open>initializeDefaultPatterns\<close>, never \<open>undefined\<close>: so a call \<open>fuse(litIDs)\<close> with no
  pattern name (or an empty one) never raises "Fusion pattern not found". This holds
  for an engine whose four default names still hold the patterns the constructor
  registered, which the constructor establishes and \<open>fuse\<close> keeps.
\<close>

theorem selected_pattern_registered:
  assumes "defaults_intact eng" and "valid_refs (litComposer eng) h"
  shows "(\<exists>p. fst (selectFusionPattern lits eng e) = Some p \<and>
              (fp_name p, fusionLogic p) \<in> set default_logics) \<and>
         fst (fuse litIDs None eng h e) \<noteq> Inl (PatternNotFound x) \<and>
         fst (fuse litIDs (Some []) eng h e) \<noteq> Inl (PatternNotFound x)"
proof -
  have sel: "\<exists>p. map_of (fusionPatterns eng) (fst (selectFusionPatternName objs e0)) = Some p \<and>
                (fp_name p, fusionLogic p) \<in> set default_logics" for objs e0
  proof -
    obtain l where l: "(fst (selectFusionPatternName objs e0), l) \<in> set default_logics"
      using selectFusionPatternName_default [of objs e0] by auto
    from defaults_lookup [OF assms(1) l] l show ?thesis
      by auto
  qed
  have one: "\<exists>p. fst (selectFusionPattern lits eng e) = Some p \<and>
              (fp_name p, fusionLogic p) \<in> set default_logics"
    using sel [of lits e] by (simp add: selectFusionPattern_def split_def Let_def)
  let ?lits = "List.map_filter (find (litComposer eng)) litIDs"
  let ?objs = "map (\<lambda>lit. h ! lit) ?lits"
  have v: "\<forall>l \<in> set ?lits. l < length h"
    using valid_refs_resolved [OF assms(2)] by blast
  have two: "fst (fuse litIDs pn eng h e) \<noteq> Inl (PatternNotFound x)"
    if pn: "pattern_key pn ?objs e = selectFusionPatternName ?objs e" for pn
  proof -
    let ?key = "fst (pattern_key pn ?objs e)"
    let ?e1 = "snd (pattern_key pn ?objs e)"
    obtain p where p: "map_of (fusionPatterns eng) ?key = Some p"
      "(fp_name p, fusionLogic p) \<in> set default_logics"
      using sel [of ?objs e] pn by auto
    show ?thesis
    proof (cases "length ?lits < 2 \<or> \<not> canFuse p ?objs")
      case True
      then show ?thesis
        using p by (auto simp: fuse_checks [OF refl refl])
    next
      case False
      then have x: "fuse litIDs pn eng h e = fuse_execute ?key p ?lits litIDs eng h ?e1"
        using p by (simp add: fuse_checks [OF refl refl])
      show ?thesis
        using fuse_execute_outcome [OF v, of p ?e1 ?key litIDs eng]
          default_logic_error [OF p(2), of ?objs ?e1 "PatternNotFound x"]
        by (auto simp: x)
    qed
  qed
  have "fst (fuse litIDs None eng h e) \<noteq> Inl (PatternNotFound x)"
    by (rule two) (simp add: pattern_key_def)
  moreover have "fst (fuse litIDs (Some []) eng h e) \<noteq> Inl (PatternNotFound x)"
    by (rule two) (simp add: pattern_key_def)
  ultimately show ?thesis
    using one by blast
qed


lemma ex_types:
  "lit_type (ex_heap ! 0) = js ''knowledge''" "lit_type (ex_heap ! Suc 0) = js ''knowledge''"
proof -
  obtain A B where h: "ex_heap = [A, B]"
    and a: "LIT_new (knowledge_config ''a'' ''Waves'' ''alpha'') env0 = (Inr A, env0\<lparr>reads := 3\<rparr>)"
    and b: "LIT_new (knowledge_config ''b'' ''Particles'' ''beta'') (env0\<lparr>reads := 3\<rparr>) =
       (Inr B, env0\<lparr>reads := 6\<rparr>)"
    using ex_heap_eq by blast
  show "lit_type (ex_heap ! 0) = js ''knowledge''"
    using LIT_new_fields(3) [OF a] by (simp add: h knowledge_config_def string_or_def js_def)
  show "lit_type (ex_heap ! Suc 0) = js ''knowledge''"
    using LIT_new_fields(3) [OF b] by (simp add: h knowledge_config_def string_or_def js_def)
qed

lemma ex_values:
  "\<exists>v. fst (calculateValue (ex_heap ! 0) e) = Fin v \<and> 0.256 \<le> v \<and> v \<le> 0.304"
  "\<exists>v. fst (calculateValue (ex_heap ! Suc 0) e) = Fin v \<and> 0.256 \<le> v \<and> v \<le> 0.304"
proof -
  obtain A B where h: "ex_heap = [A, B]"
    and a: "LIT_new (knowledge_config ''a'' ''Waves'' ''alpha'') env0 = (Inr A, env0\<lparr>reads := 3\<rparr>)"
    and b: "LIT_new (knowledge_config ''b'' ''Particles'' ''beta'') (env0\<lparr>reads := 3\<rparr>) =
       (Inr B, env0\<lparr>reads := 6\<rparr>)"
    using ex_heap_eq by blast
  show "\<exists>v. fst (calculateValue (ex_heap ! 0) e) = Fin v \<and> 0.256 \<le> v \<and> v \<le> 0.304"
    using knowledge_value [OF a, of e] by (simp add: h)
  show "\<exists>v. fst (calculateValue (ex_heap ! Suc 0) e) = Fin v \<and> 0.256 \<le> v \<and> v \<le> 0.304"
    using knowledge_value [OF b, of e] by (simp add: h)
qed

lemma ex_coherences:
  "\<exists>a. coherenceScore (coherenceField (ex_heap ! 0)) = Fin a \<and> 0.64 \<le> a \<and> a \<le> 0.76"
  "\<exists>a. coherenceScore (coherenceField (ex_heap ! Suc 0)) = Fin a \<and> 0.64 \<le> a \<and> a \<le> 0.76"
proof -
  obtain A B where h: "ex_heap = [A, B]"
    and a: "LIT_new (knowledge_config ''a'' ''Waves'' ''alpha'') env0 = (Inr A, env0\<lparr>reads := 3\<rparr>)"
    and b: "LIT_new (knowledge_config ''b'' ''Particles'' ''beta'') (env0\<lparr>reads := 3\<rparr>) =
       (Inr B, env0\<lparr>reads := 6\<rparr>)"
    using ex_heap_eq by blast
  show "\<exists>a. coherenceScore (coherenceField (ex_heap ! 0)) = Fin a \<and> 0.64 \<le> a \<and> a \<le> 0.76"
    using knowledge_coherence [OF a] by (simp add: h)
  show "\<exists>a. coherenceScore (coherenceField (ex_heap ! Suc 0)) = Fin a \<and> 0.64 \<le> a \<and> a \<le> 0.76"
    using knowledge_coherence [OF b] by (simp add: h)
qed

lemma ex_select:
  "fst (selectFusionPatternName [ex_heap ! 0, ex_heap ! Suc 0] e) = js ''Harmonic Synthesis''"
proof -
  let ?e1 = "snd (calculateValue (ex_heap ! 0) e)"
  obtain va where va: "fst (calculateValue (ex_heap ! 0) e) = Fin va" "va \<le> 0.304"
    using ex_values(1) [of e] by blast
  obtain vb where vb: "fst (calculateValue (ex_heap ! Suc 0) ?e1) = Fin vb" "vb \<le> 0.304"
    using ex_values(2) [of ?e1] by blast
  have s: "fst (sum_with calculateValue (Fin 0) [ex_heap ! 0, ex_heap ! Suc 0] e) = Fin (va + vb)"
    by (simp add: split_def va vb)
  have n: "\<not> jlt (Fin 0.7) (jdiv (Fin (va + vb)) (Fin 2))"
    using va vb by simp
  have t: "js ''knowledge'' \<noteq> js ''creative''" "js ''knowledge'' \<noteq> js ''emergent-creative''"
    "js ''process'' \<noteq> js ''knowledge''"
    by (simp_all add: js_def)
  show ?thesis
    using n t
    by (simp add: selectFusionPatternName_def split_def Let_def s ex_types del: sum_with.simps)
qed

theorem selected_pattern_registered_witness:
  "defaults_intact ex_engine \<and> valid_refs (litComposer ex_engine) ex_heap \<and>
   fst (selectFusionPattern [ex_heap ! 0, ex_heap ! Suc 0] ex_engine ex_env) =
     Some (FusionPattern_new (js ''Harmonic Synthesis'')
             (js ''Combines related knowledge into coherent understanding'') harmonicSynthesis) \<and>
   fst (fuse [js ''a'', js ''b''] None ex_engine ex_heap ex_env) \<noteq> Inl (PatternNotFound None)"
proof -
  have d: "defaults_intact ex_engine"
    by (simp add: ex_engine_def engine_new_intact)
  have p: "fst (selectFusionPattern [ex_heap ! 0, ex_heap ! Suc 0] ex_engine ex_env) =
     Some (FusionPattern_new (js ''Harmonic Synthesis'')
             (js ''Combines related knowledge into coherent understanding'') harmonicSynthesis)"
    by (simp add: selectFusionPattern_def split_def Let_def ex_select ex_engine_def
        engine_new_patterns)
  show ?thesis
    using d p ex_valid_refs
      selected_pattern_registered [OF d ex_valid_refs, of "[ex_heap ! 0, ex_heap ! Suc 0]" ex_env
        "[js ''a'', js ''b'']" None]
    by simp
qed



subsection \<open>Harmonic Synthesis\<close>

lemma ToString_platform:
  "numberToString e' = numberToString e \<Longrightarrow> ToString e' v = ToString e v"
proof (induction e v rule: ToString.induct)
  case (6 e xs)
  have "map (\<lambda>x. if x = JNull \<or> x = JUndefined then [] else ToString e' x) xs =
        map (\<lambda>x. if x = JNull \<or> x = JUndefined then [] else ToString e x) xs"
    by (rule map_cong) (use 6 in auto)
  then show ?case by (simp only: ToString.simps)
qed (auto simp: Number_toString_def split: jsnum.splits)

lemma sum_with_calculateValue_platform:
  "same_platform e (snd (sum_with calculateValue acc lits e))"
proof (induction lits arbitrary: acc e)
  case Nil
  then show ?case by simp
next
  case (Cons l lits)
  have "same_platform e (snd (calculateValue l e))"
    by (simp add: calculateValue_env)
  then show ?case
    using Cons [where acc = "jadd acc (fst (calculateValue l e))" and e = "snd (calculateValue l e)"]
    by (auto simp: split_def Let_def intro: same_platform_trans)
qed

lemma pattern_key_platform: "same_platform e (snd (pattern_key pn objs e))"
  by (auto simp: pattern_key_def selectFusionPatternName_def split_def Let_def
      sum_with_calculateValue_platform split: option.splits)

lemma harmonicSynthesis_platform: "same_platform e (snd (harmonicSynthesis objs e))"
  by (simp add: harmonicSynthesis_def split_def Let_def Date_now_def same_platform_def)

lemma harmonicSynthesis_Inr:
  assumes "fst (harmonicSynthesis objs e) = Inr cfg"
  shows "cfg_capabilities cfg = None"
    and "get_prop (or_else (cfg_content cfg) (JObj [])) (js ''synthesizedKnowledge'') =
      JStr (Array_join e [0x20, 0x2295, 0x20]
              (map (\<lambda>lit. or_else (or_else (get_prop (content lit) (js ''knowledge''))
                                            (get_prop (content lit) (js ''description'')))
                                   (JStr [])) objs))"
proof -
  have n: "\<not> list_ex (\<lambda>lit. nullish (content lit)) objs"
    using assms by (auto simp: harmonicSynthesis_def)
  show "cfg_capabilities cfg = None"
    using assms n by (auto simp: harmonicSynthesis_def split_def Let_def)
  have "\<exists>t1 t2 topics.
     cfg_content cfg = JObj
                    [(js ''fusionType'', JStr (js ''harmonic-synthesis'')),
                     (js ''sourceTopics'', JArr topics),
                     (js ''synthesizedKnowledge'', JStr (Array_join e [0x20, 0x2295, 0x20]
              (map (\<lambda>lit. or_else (or_else (get_prop (content lit) (js ''knowledge''))
                                            (get_prop (content lit) (js ''description'')))
                                   (JStr [])) objs))),
                     (js ''id'', JStr (js ''synthesis-'' @ numberToString e (real_of_int t1))),
                     (js ''persistent'', JBool True),
                     (js ''value'', JNum (Fin 1)),
                     (js ''metadata'', JObj
                        [(js ''sourceCount'', JNum (Fin (real (length objs)))),
                         (js ''fusedAt'', JStr (toISOString e t2))])]"
    using assms n by (auto simp: harmonicSynthesis_def split_def Let_def)
  then obtain t1 t2 topics where c: "cfg_content cfg = JObj
                    [(js ''fusionType'', JStr (js ''harmonic-synthesis'')),
                     (js ''sourceTopics'', JArr topics),
                     (js ''synthesizedKnowledge'', JStr (Array_join e [0x20, 0x2295, 0x20]
              (map (\<lambda>lit. or_else (or_else (get_prop (content lit) (js ''knowledge''))
                                            (get_prop (content lit) (js ''description'')))
                                   (JStr [])) objs))),
                     (js ''id'', JStr (js ''synthesis-'' @ numberToString e (real_of_int t1))),
                     (js ''persistent'', JBool True),
                     (js ''value'', JNum (Fin 1)),
                     (js ''metadata'', JObj
                        [(js ''sourceCount'', JNum (Fin (real (length objs)))),
                         (js ''fusedAt'', JStr (toISOString e t2))])]"
    by blast
  have k: "js ''fusionType'' \<noteq> js ''synthesizedKnowledge''"
    "js ''sourceTopics'' \<noteq> js ''synthesizedKnowledge''"
    by (simp_all add: js_def)
  show "get_prop (or_else (cfg_content cfg) (JObj [])) (js ''synthesizedKnowledge'') =
      JStr (Array_join e [0x20, 0x2295, 0x20]
              (map (\<lambda>lit. or_else (or_else (get_prop (content lit) (js ''knowledge''))
                                            (get_prop (content lit) (js ''description'')))
                                   (JStr [])) objs))"
    using k by (simp add: c or_else_def get_prop_def)
qed

lemma Array_join_items:
  "Array_join e sep (map (\<lambda>lit. or_else (or_else (k lit) (d lit)) (JStr [])) objs) =
   join sep (map (\<lambda>lit. ToString e
                   (if truthy (k lit) then k lit else if truthy (d lit) then d lit else JStr []))
               objs)"
proof -
  have "(if nullish (or_else (or_else a b) (JStr [])) then []
         else ToString e (or_else (or_else a b) (JStr []))) =
        ToString e (if truthy a then a else if truthy b then b else JStr [])" for a b
    by (auto simp: or_else_def nullish_def)
  then show ?thesis
    by (simp add: Array_join_def comp_def)
qed

lemma ts_record_interactions:
  "map i_type (interactions (fst (ts_record ty i ts e))) = map i_type (interactions ts) @ [ty]"
  by (simp add: ts_record_def updatePersistence_def Date_now_def Let_def)


lemma fuse_success:
  assumes f: "fuse litIDs patternName eng h e = (Inr res, eng', h', e')"
    and v: "valid_refs (litComposer eng) h"
  defines "lits \<equiv> List.map_filter (find (litComposer eng)) litIDs"
  defines "objs \<equiv> map (\<lambda>lit. h ! lit) lits"
  defines "key \<equiv> fst (pattern_key patternName objs e)"
  defines "e1 \<equiv> snd (pattern_key patternName objs e)"
  shows "\<exists>p cfg L e2 e3 r boosted e4.
     map_of (fusionPatterns eng) key = Some p \<and> canFuse p objs \<and>
     fst (fusionLogic p objs e1) = Inr cfg \<and>
     LIT_new cfg (snd (fusionLogic p objs e1)) = (Inr L, e2) \<and>
     EmergenceMetrics_calculate objs L e2 = (Inr (emergence res), e3) \<and>
     interact (js ''fusion'') (Data (Some (emergenceScore (emergence res)))) L e3 =
       (r, boosted, e4) \<and>
     fusedLIT res = length h \<and> pattern res = fp_name p \<and>
     h' ! length h = boosted \<and> length h' = Suc (length h)"
proof -
  have vl: "\<forall>l \<in> set lits. l < length h"
    unfolding lits_def using valid_refs_resolved [OF v] by blast
  have c: "fuse litIDs patternName eng h e =
     (if length lits < 2 then (Inl FusionTooFew, eng, h, e)
      else case map_of (fusionPatterns eng) key of
             None \<Rightarrow> (Inl (PatternNotFound patternName), eng, h, e1)
           | Some p \<Rightarrow>
               if \<not> canFuse p objs then (Inl InsufficientCoherence, eng, h, e1)
               else fuse_execute key p lits litIDs eng h e1)"
    unfolding key_def e1_def by (rule fuse_checks) (simp_all add: lits_def objs_def)
  obtain p where p: "map_of (fusionPatterns eng) key = Some p" "canFuse p objs"
    and x: "fuse_execute key p lits litIDs eng h e1 = (Inr res, eng', h', e')"
    using f c by (auto split: if_splits option.splits)
  from fuse_execute_outcome [OF vl, of p e1 key litIDs eng] x
  obtain cfg L e2 em e3 r boosted e4 h3 e5 where o:
    "fst (fusionLogic p objs e1) = Inr cfg"
    "LIT_new cfg (snd (fusionLogic p objs e1)) = (Inr L, e2)"
    "interact (js ''fusion'') (Data (Some (emergenceScore em))) L e3 = (r, boosted, e4)"
    "relate_all lits (length h) (h @ [boosted]) e4 = (h3, e5)"
    "res = \<lparr>fusedLIT = length h, emergence = em, pattern = fp_name p\<rparr>" "h' = h3"
    and m: "EmergenceMetrics_calculate objs L e2 = (Inr em, e3)"
    unfolding objs_def by auto
  have "length h \<notin> set lits"
    using vl by auto
  from relate_all_other [OF this, of "h @ [boosted]" e4]
  have "h3 ! length h = boosted" "length h3 = Suc (length h)"
    using o(4) by simp_all
  then show ?thesis
    using p o m by auto
qed

lemma EmergenceMetrics_calculate_platform:
  "same_platform e (snd (EmergenceMetrics_calculate objs L e))"
proof -
  let ?e1 = "snd (sum_with calculateValue (Fin 0) objs e)"
  have "same_platform e ?e1"
    by (rule sum_with_calculateValue_platform)
  moreover have "same_platform ?e1 (snd (calculateValue L ?e1))"
    by (simp add: calculateValue_env)
  ultimately have "same_platform e (snd (calculateValue L ?e1))"
    by (rule same_platform_trans)
  then show ?thesis
    by (simp add: EmergenceMetrics_calculate_def Let_def split_def)
qed

lemma sum_with_calculateValue_reads:
  "reads e \<le> reads (snd (sum_with calculateValue acc lits e))"
proof (induction lits arbitrary: acc e)
  case Nil
  then show ?case by simp
next
  case (Cons l lits)
  show ?case
    using Cons [where acc = "jadd acc (fst (calculateValue l e))" and e = "snd (calculateValue l e)"]
    by (simp add: split_def Let_def calculateValue_env)
qed

lemma pattern_key_reads: "reads e \<le> reads (snd (pattern_key pn objs e))"
  by (auto simp: pattern_key_def selectFusionPatternName_def split_def Let_def
      sum_with_calculateValue_reads split: option.splits)

lemma harmonicSynthesis_reads: "reads e \<le> reads (snd (harmonicSynthesis objs e))"
  by (simp add: harmonicSynthesis_def split_def Let_def Date_now_def)

lemma generateId_reads: "reads (snd (generateId e)) = Suc (reads e)"
  by (simp add: generateId_def Date_now_def Math_random_def Let_def split_def)

lemma updateState_env: "snd (updateState lit e) = e\<lparr>reads := Suc (reads e)\<rparr>"
  using updateState_shape [of lit e] by auto

lemma LIT_new_reads:
  assumes "LIT_new cfg e = (Inr lit, e')"
  shows "reads e + 3 \<le> reads e'"
proof (cases "string_or (cfg_id cfg) [] \<noteq> []")
  case True
  then show ?thesis
    using LIT_new_result [of cfg e] assms by auto
next
  case False
  let ?e1 = "snd (generateId e)"
  have g: "(case cfg_id cfg of None \<Rightarrow> generateId e
            | Some x \<Rightarrow> if x \<noteq> [] then (x, e) else generateId e) = generateId e"
    using False by (auto simp: string_or_def split: option.splits)
  have "e' = ?e1\<lparr>reads := reads ?e1 + 3\<rparr>"
    using assms
    by (auto simp: LIT_new_def g Let_def split_def TemporalSignature_new_eq updateState_env
        split: sum.splits)
  then show ?thesis
    by (simp add: generateId_reads)
qed

lemma EmergenceMetrics_calculate_reads:
  "reads e \<le> reads (snd (EmergenceMetrics_calculate objs L e))"
proof -
  let ?e1 = "snd (sum_with calculateValue (Fin 0) objs e)"
  have "reads e \<le> reads ?e1"
    by (rule sum_with_calculateValue_reads)
  then show ?thesis
    by (simp add: EmergenceMetrics_calculate_def Let_def split_def calculateValue_env)
qed

lemma harmonic_fusion_fields:
  assumes "fuse litIDs patternName eng h e = (Inr res, eng', h', e')"
    and "pattern res = js ''Harmonic Synthesis''"
    and "defaults_intact eng" and "valid_refs (litComposer eng) h"
  shows "get_prop (content (h' ! fusedLIT res)) (js ''synthesizedKnowledge'') =
           JStr (join [0x20, 0x2295, 0x20]
                   (map (\<lambda>lit. ToString e
                           (if truthy (get_prop (content lit) (js ''knowledge''))
                            then get_prop (content lit) (js ''knowledge'')
                            else if truthy (get_prop (content lit) (js ''description''))
                            then get_prop (content lit) (js ''description'')
                            else JStr []))
                      (map (\<lambda>lit. h ! lit) (List.map_filter (find (litComposer eng)) litIDs)))) \<and>
         CoherenceField_new e (content (h' ! fusedLIT res)) =
           Inr (coherenceField (h' ! fusedLIT res)) \<and>
         agentSystem (h' ! fusedLIT res) = AgentSystem_new [] \<and>
         map i_type (interactions (temporalSignature (h' ! fusedLIT res))) = [js ''fusion''] \<and>
         (\<exists>ea eb. same_platform e ea \<and> same_platform e eb \<and>
            reads e \<le> reads ea \<and> reads ea < reads eb \<and>
            temporalSignature (h' ! fusedLIT res) =
              fst (ts_record (js ''fusion'')
                     (if truthy (JNum (emergenceScore (emergence res)))
                      then emergenceScore (emergence res) else Fin 0.1)
                     (fst (TemporalSignature_new ea)) eb))"
proof -
  let ?lits = "List.map_filter (find (litComposer eng)) litIDs"
  let ?objs = "map (\<lambda>lit. h ! lit) ?lits"
  let ?key = "fst (pattern_key patternName ?objs e)"
  let ?e1 = "snd (pattern_key patternName ?objs e)"
  let ?ec = "snd (harmonicSynthesis ?objs ?e1)"
  let ?impact = "if truthy (JNum (emergenceScore (emergence res)))
                 then emergenceScore (emergence res) else Fin 0.1"
  from fuse_success [OF assms(1,4)]
  obtain p cfg L e2 e3 r boosted e4 where
    p: "map_of (fusionPatterns eng) ?key = Some p"
    and lg: "fst (fusionLogic p ?objs ?e1) = Inr cfg"
    and n: "LIT_new cfg (snd (fusionLogic p ?objs ?e1)) = (Inr L, e2)"
    and m: "EmergenceMetrics_calculate ?objs L e2 = (Inr (emergence res), e3)"
    and i: "interact (js ''fusion'') (Data (Some (emergenceScore (emergence res)))) L e3 =
              (r, boosted, e4)"
    and r: "fusedLIT res = length h" "pattern res = fp_name p" "h' ! length h = boosted"
    by blast
  have "(?key, p) \<in> set (fusionPatterns eng)"
    using p by (simp add: map_of_SomeD)
  then have "fp_name p = ?key"
    using assms(3) by (auto simp: defaults_intact_def list_all_iff)
  then have k: "?key = js ''Harmonic Synthesis''"
    using r(2) assms(2) by simp
  have "(js ''Harmonic Synthesis'', harmonicSynthesis) \<in> set default_logics"
    by (simp add: default_logics_def)
  from defaults_lookup [OF assms(3) this] p k
  have hs: "fusionLogic p = harmonicSynthesis"
    by auto
  have lg': "fst (harmonicSynthesis ?objs ?e1) = Inr cfg"
    using lg hs by simp
  have pl1: "same_platform e ?e1"
    by (rule pattern_key_platform)
  have pl2: "same_platform e ?ec"
    using pl1 harmonicSynthesis_platform [of ?e1 ?objs] by (rule same_platform_trans)
  have nt: "numberToString ?e1 = numberToString e"
    using pl1 by (simp add: same_platform_def)
  have b: "content boosted = content L" "coherenceField boosted = coherenceField L"
    "agentSystem boosted = agentSystem L"
    "temporalSignature boosted = fst (ts_record (js ''fusion'') ?impact (temporalSignature L) e3)"
    using interact_fields [OF i] by simp_all
  have n': "LIT_new cfg ?ec = (Inr L, e2)"
    using n hs by simp
  have cL: "content L = or_else (cfg_content cfg) (JObj [])"
    using LIT_new_fields(4) [OF n'] .
  have sk: "get_prop (content L) (js ''synthesizedKnowledge'') =
      JStr (Array_join ?e1 [0x20, 0x2295, 0x20]
              (map (\<lambda>lit. or_else (or_else (get_prop (content lit) (js ''knowledge''))
                                            (get_prop (content lit) (js ''description'')))
                                   (JStr [])) ?objs))"
    using harmonicSynthesis_Inr(2) [OF lg'] by (simp add: cL)
  have one: "get_prop (content boosted) (js ''synthesizedKnowledge'') =
           JStr (join [0x20, 0x2295, 0x20]
                   (map (\<lambda>lit. ToString e
                           (if truthy (get_prop (content lit) (js ''knowledge''))
                            then get_prop (content lit) (js ''knowledge'')
                            else if truthy (get_prop (content lit) (js ''description''))
                            then get_prop (content lit) (js ''description'')
                            else JStr []))
                      ?objs))"
    unfolding b(1) sk Array_join_items ToString_platform [OF nt] ..
  have two: "CoherenceField_new e (content boosted) = Inr (coherenceField boosted)"
    using LIT_new_fields(1) [OF n'] CoherenceField_new_platform [OF pl2, of "content L"]
    by (simp add: b)
  have three: "agentSystem boosted = AgentSystem_new []"
    using LIT_new_fields(6) [OF n'] harmonicSynthesis_Inr(1) [OF lg'] by (simp add: b)
  have tL: "temporalSignature L =
       \<lparr>createdAt = clock ?ec (reads e2 - 3), lastModified = clock ?ec (reads e2 - 2),
        interactions = [], persistence = Fin 0\<rparr>"
    using LIT_new_fields(7) [OF n'] .
  have four: "map i_type (interactions (temporalSignature boosted)) = [js ''fusion'']"
    by (simp add: b(4) tL ts_record_interactions)
  have r3: "3 \<le> reads e2"
    using LIT_new_result [of cfg ?ec] n' by auto
  let ?ea = "?ec\<lparr>reads := reads e2 - 3\<rparr>"
  have "Suc (reads e2 - 3) = reads e2 - 2"
    using r3 by simp
  then have ta: "temporalSignature L = fst (TemporalSignature_new ?ea)"
    by (simp add: tL TemporalSignature_new_eq)
  have pa: "same_platform e ?ea"
    using pl2 by (simp add: same_platform_def)
  have "same_platform ?ec e2"
    using LIT_new_fields(2) [OF n'] .
  with pl2 have "same_platform e e2"
    by (rule same_platform_trans)
  moreover have "same_platform e2 e3"
    using EmergenceMetrics_calculate_platform [of e2 ?objs L] by (simp add: m)
  ultimately have pb: "same_platform e e3"
    by (rule same_platform_trans)
  have "reads e \<le> reads ?e1"
    by (rule pattern_key_reads)
  also have "\<dots> \<le> reads ?ec"
    by (rule harmonicSynthesis_reads)
  finally have "reads e + 3 \<le> reads e2"
    using LIT_new_reads [OF n'] by simp
  then have ra: "reads e \<le> reads ?ea"
    by simp
  have "reads e2 \<le> reads e3"
    using EmergenceMetrics_calculate_reads [of e2 ?objs L] by (simp add: m)
  then have rb: "reads ?ea < reads e3"
    using r3 by simp
  have "same_platform e ?ea \<and> same_platform e e3 \<and> reads e \<le> reads ?ea \<and>
      reads ?ea < reads e3 \<and>
      temporalSignature boosted =
        fst (ts_record (js ''fusion'') ?impact (fst (TemporalSignature_new ?ea)) e3)"
    using pa pb ra rb b(4) ta by simp
  then have five: "\<exists>ea eb. same_platform e ea \<and> same_platform e eb \<and>
      reads e \<le> reads ea \<and> reads ea < reads eb \<and>
      temporalSignature boosted =
        fst (ts_record (js ''fusion'') ?impact (fst (TemporalSignature_new ea)) eb)"
    by blast
  show ?thesis
    using one two three four five by (simp add: r)
qed

lemma ex_knowledge:
  "get_prop (content (ex_heap ! 0)) (js ''knowledge'') = JStr (js ''alpha'')"
  "get_prop (content (ex_heap ! Suc 0)) (js ''knowledge'') = JStr (js ''beta'')"
  by (simp_all add: ex_contents knowledge_config_def get_prop_def js_def)

lemma ex_fuse_harmonic:
  "\<exists>res eng' h' e'.
     fuse [js ''a'', js ''b''] (Some (js ''Harmonic Synthesis'')) ex_engine ex_heap ex_env =
       (Inr res, eng', h', e') \<and>
     pattern res = js ''Harmonic Synthesis''"
proof -
  let ?hs = "FusionPattern_new (js ''Harmonic Synthesis'')
             (js ''Combines related knowledge into coherent understanding'') harmonicSynthesis"
  let ?objs = "map (\<lambda>lit. ex_heap ! lit) [0, Suc 0]"
  have k: "pattern_key (Some (js ''Harmonic Synthesis'')) objs ex_env =
           (js ''Harmonic Synthesis'', ex_env)" for objs
    by (simp add: pattern_key_def js_def)
  have m: "map_of (fusionPatterns ex_engine) (js ''Harmonic Synthesis'') = Some ?hs"
    by (simp add: ex_engine_def engine_new_patterns)
  obtain a where a: "coherenceScore (coherenceField (ex_heap ! 0)) = Fin a" "0.64 \<le> a"
    using ex_coherences(1) by blast
  obtain b where b: "coherenceScore (coherenceField (ex_heap ! Suc 0)) = Fin b" "0.64 \<le> b"
    using ex_coherences(2) by blast
  have cf: "canFuse ?hs ?objs"
    using a b by (simp add: canFuse_def FusionPattern_new_def Let_def)
  have l: "List.map_filter (find (litComposer ex_engine)) [js ''a'', js ''b''] = [0, Suc 0]"
    using ex_lits by simp
  have x: "fuse [js ''a'', js ''b''] (Some (js ''Harmonic Synthesis'')) ex_engine ex_heap ex_env =
     fuse_execute (js ''Harmonic Synthesis'') ?hs [0, Suc 0] [js ''a'', js ''b''] ex_engine ex_heap
       ex_env"
    using cf by (simp add: fuse_checks [OF l [symmetric] refl] k m)
  have v: "\<forall>l \<in> set [0, Suc 0]. l < length ex_heap"
    by (simp add: ex_heap_length)
  have c: "content (ex_heap ! 0) \<noteq> JUndefined" "content (ex_heap ! Suc 0) \<noteq> JUndefined"
    "\<not> nullish (content (ex_heap ! 0))" "\<not> nullish (content (ex_heap ! Suc 0))"
    by (simp_all add: ex_contents knowledge_config_def nullish_def)
  have nl: "fst (harmonicSynthesis ?objs ex_env) \<noteq> Inl err" for err
    using c by (simp add: harmonicSynthesis_def split_def Let_def)
  have fl: "fusionLogic ?hs = harmonicSynthesis" "fp_name ?hs = js ''Harmonic Synthesis''"
    by (simp_all add: FusionPattern_new_def)
  show ?thesis
    using fuse_execute_outcome [OF v, of ?hs ex_env "js ''Harmonic Synthesis''"
        "[js ''a'', js ''b'']" ex_engine] nl c(1,2)
    by (auto simp: x fl)
qed

subsection \<open>A source whose knowledge is 0\<close>

lemma example3_eq:
  "\<exists>C. ex_composer3 = \<lparr>registry = [(js ''a'', 0), (js ''b'', 1), (js ''c'', 2)]\<rparr> \<and>
     ex_heap3 = ex_heap @ [C] \<and> ex_env3 = ex_env\<lparr>reads := reads ex_env + 3\<rparr> \<and>
     LIT_new zero_config ex_env = (Inr C, ex_env3)"
proof -
  have i: "cfg_id zero_config = Some (js ''c'')" "js ''c'' \<noteq> []"
    by (simp_all add: zero_config_def js_def)
  obtain A B where x2: "example2 =
       (\<lparr>registry = [(js ''a'', 0), (js ''b'', 1)]\<rparr>, [A, B], env0\<lparr>reads := 6\<rparr>)"
    using example2_eq by blast
  have ec: "ex_composer = \<lparr>registry = [(js ''a'', 0), (js ''b'', 1)]\<rparr>"
    unfolding ex_composer_def by (subst x2) simp
  obtain C where c: "LIT_new zero_config ex_env = (Inr C, ex_env\<lparr>reads := reads ex_env + 3\<rparr>)"
    "compose zero_config ex_composer ex_heap ex_env =
       (Inr (length ex_heap),
        ex_composer\<lparr>registry := AList.update (js ''c'') (length ex_heap) (registry ex_composer)\<rparr>,
        ex_heap @ [C], ex_env\<lparr>reads := reads ex_env + 3\<rparr>)"
    using compose_with_id [OF i, of ex_env ex_composer ex_heap] by blast
  have x: "example3 =
       (\<lparr>registry = [(js ''a'', 0), (js ''b'', 1), (js ''c'', 2)]\<rparr>, ex_heap @ [C],
        ex_env\<lparr>reads := reads ex_env + 3\<rparr>)"
    unfolding example3_def c(2) by (simp add: ec ex_heap_length js_def)
  have "ex_composer3 = \<lparr>registry = [(js ''a'', 0), (js ''b'', 1), (js ''c'', 2)]\<rparr>"
    "ex_heap3 = ex_heap @ [C]" "ex_env3 = ex_env\<lparr>reads := reads ex_env + 3\<rparr>"
    unfolding ex_composer3_def ex_heap3_def ex_env3_def by (subst x, simp)+
  then show ?thesis
    using c(1) by simp
qed

lemma ex_registry3:
  "registry ex_composer3 = [(js ''a'', 0), (js ''b'', 1), (js ''c'', 2)]"
proof -
  obtain C where x: "ex_composer3 = \<lparr>registry = [(js ''a'', 0), (js ''b'', 1), (js ''c'', 2)]\<rparr>"
    using example3_eq by blast
  show ?thesis
    by (subst x) simp
qed

lemma ex_engine3_composer: "litComposer ex_engine3 = ex_composer3"
  by (simp add: ex_engine3_def)

lemma ex_lits3:
  "List.map_filter (find (litComposer ex_engine3)) [js ''c'', js ''b''] = [2, Suc 0]"
proof -
  have "find ex_composer3 (js ''c'') = Some 2" "find ex_composer3 (js ''b'') = Some (Suc 0)"
    by (simp_all add: find_def ex_registry3 js_def)
  then show ?thesis
    by (simp add: ex_engine3_composer List.map_filter_def)
qed

lemma ex_heap3_length: "length ex_heap3 = 3"
proof -
  obtain C where h: "ex_heap3 = ex_heap @ [C]"
    using example3_eq by blast
  show ?thesis
    by (subst h) (simp add: ex_heap_length)
qed

lemma ex_valid_refs3: "valid_refs (litComposer ex_engine3) ex_heap3"
  by (simp add: valid_refs_def ex_engine3_composer ex_registry3 ex_heap3_length)

lemma ex_heap3_lits:
  "ex_heap3 ! Suc 0 = ex_heap ! Suc 0"
  "content (ex_heap3 ! 2) = cfg_content zero_config"
  "\<exists>a. coherenceScore (coherenceField (ex_heap3 ! 2)) = Fin a \<and> 2 / 25 \<le> a"
proof -
  obtain C where h: "ex_heap3 = ex_heap @ [C]" and c: "LIT_new zero_config ex_env = (Inr C, ex_env3)"
    using example3_eq by blast
  have two: "ex_heap3 ! 2 = C"
    by (simp add: h nth_append ex_heap_length)
  show "ex_heap3 ! Suc 0 = ex_heap ! Suc 0"
    by (simp add: h nth_append ex_heap_length)
  show "content (ex_heap3 ! 2) = cfg_content zero_config"
    using LIT_new_fields(4) [OF c] by (simp add: two zero_config_def or_else_def)
  have "\<exists>a. coherenceScore (coherenceField C) = Fin a \<and> 2 / 25 \<le> a \<and> a \<le> 1"
    using CoherenceField_new_unit(3,4,5) [OF LIT_new_fields(1) [OF c]]
    by (rule coherenceScore_bounds)
  then show "\<exists>a. coherenceScore (coherenceField (ex_heap3 ! 2)) = Fin a \<and> 2 / 25 \<le> a"
    by (auto simp: two)
qed

lemma ex_env3_platform: "same_platform env0 ex_env3"
proof -
  obtain A B where e1: "ex_env = env0\<lparr>reads := 6\<rparr>"
    using ex_heap_eq by blast
  obtain C where e3: "ex_env3 = ex_env\<lparr>reads := reads ex_env + 3\<rparr>"
    using example3_eq by blast
  show ?thesis
    by (simp add: e3 e1 same_platform_def)
qed

lemma ex_fuse_zero:
  "\<exists>res eng' h' e'.
     fuse [js ''c'', js ''b''] (Some (js ''Harmonic Synthesis'')) ex_engine3 ex_heap3 ex_env3 =
       (Inr res, eng', h', e') \<and>
     pattern res = js ''Harmonic Synthesis''"
proof -
  let ?hs = "FusionPattern_new (js ''Harmonic Synthesis'')
             (js ''Combines related knowledge into coherent understanding'') harmonicSynthesis"
  let ?objs = "map (\<lambda>lit. ex_heap3 ! lit) [2, Suc 0]"
  have k: "pattern_key (Some (js ''Harmonic Synthesis'')) objs ex_env3 =
           (js ''Harmonic Synthesis'', ex_env3)" for objs
    by (simp add: pattern_key_def js_def)
  have m: "map_of (fusionPatterns ex_engine3) (js ''Harmonic Synthesis'') = Some ?hs"
    by (simp add: ex_engine3_def engine_new_patterns)
  obtain a where a: "coherenceScore (coherenceField (ex_heap3 ! 2)) = Fin a" "2 / 25 \<le> a"
    using ex_heap3_lits(3) by blast
  obtain b where b: "coherenceScore (coherenceField (ex_heap3 ! Suc 0)) = Fin b" "0.64 \<le> b"
    using ex_coherences(2) by (auto simp: ex_heap3_lits(1))
  have cf: "canFuse ?hs ?objs"
    using a b by (simp add: canFuse_def FusionPattern_new_def Let_def)
  have l: "List.map_filter (find (litComposer ex_engine3)) [js ''c'', js ''b''] = [2, Suc 0]"
    using ex_lits3 .
  have x: "fuse [js ''c'', js ''b''] (Some (js ''Harmonic Synthesis'')) ex_engine3 ex_heap3 ex_env3 =
     fuse_execute (js ''Harmonic Synthesis'') ?hs [2, Suc 0] [js ''c'', js ''b''] ex_engine3 ex_heap3
       ex_env3"
    using cf by (simp add: fuse_checks [OF l [symmetric] refl] k m)
  have v: "\<forall>l \<in> set [2, Suc 0]. l < length ex_heap3"
    by (simp add: ex_heap3_length)
  have c: "content (ex_heap3 ! 2) \<noteq> JUndefined" "content (ex_heap3 ! Suc 0) \<noteq> JUndefined"
    "\<not> nullish (content (ex_heap3 ! 2))" "\<not> nullish (content (ex_heap3 ! Suc 0))"
    by (simp_all add: ex_heap3_lits ex_contents knowledge_config_def zero_config_def nullish_def)
  have nl: "fst (harmonicSynthesis ?objs ex_env3) \<noteq> Inl err" for err
    using c by (simp add: harmonicSynthesis_def split_def Let_def)
  have fl: "fusionLogic ?hs = harmonicSynthesis" "fp_name ?hs = js ''Harmonic Synthesis''"
    by (simp_all add: FusionPattern_new_def)
  show ?thesis
    using fuse_execute_outcome [OF v, of ?hs ex_env3 "js ''Harmonic Synthesis''"
        "[js ''c'', js ''b'']" ex_engine3] nl c(1,2)
    by (auto simp: x fl)
qed

lemma ex_knowledge3:
  "get_prop (content (ex_heap3 ! 2)) (js ''knowledge'') = JNum (Fin 0)"
  "get_prop (content (ex_heap3 ! 2)) (js ''description'') = JUndefined"
  "get_prop (content (ex_heap3 ! Suc 0)) (js ''knowledge'') = JStr (js ''beta'')"
  by (simp_all add: ex_heap3_lits ex_contents zero_config_def knowledge_config_def get_prop_def
      js_def)

text \<open>
  Claim C6, as the code has it. Fusion merges fields by string concatenation and
  recomputes the same scores on the result. After every successful \<open>fuse\<close> under the
  pattern Harmonic Synthesis, the \<open>synthesizedKnowledge\<close> of the fused LIT's content is
  the text of each source LIT's \<open>content.knowledge\<close> or, when that is falsy (absent,
  \<open>null\<close>, \<open>false\<close>, 0, \<open>NaN\<close> or the empty string), of its \<open>content.description\<close>, or the
  empty string when both are falsy, joined in the order of the sources with the
  separator of a circled plus between two spaces. The coherence field of the fused LIT
  is the one the \<open>CoherenceField\<close> constructor computes from this new content, and its
  agent system the one the \<open>AgentSystem\<close> constructor builds from no capabilities. Its
  temporal signature is the one the \<open>TemporalSignature\<close> constructor builds, with the
  one interaction \<open>fusion\<close> that \<open>fuse\<close> has \<open>record\<close> add to it: the impact of the
  interaction is the emergence score of the fusion (0.1 when the score is falsy), and
  creation time, last modification, time of the interaction and persistence are those
  the constructor and \<open>record\<close> compute, at two states the platform takes during the
  call, that of the constructor before that of \<open>record\<close>. The
  claim as stated, with \<open>knowledge\<close> replaced when it is absent only, fails on a source
  whose \<open>knowledge\<close> is the number 0.
\<close>

theorem harmonic_synthesis_fusion:
  assumes "fuse litIDs patternName eng h e = (Inr res, eng', h', e')"
    and "pattern res = js ''Harmonic Synthesis''"
    and "defaults_intact eng" and "valid_refs (litComposer eng) h"
  shows "get_prop (content (h' ! fusedLIT res)) (js ''synthesizedKnowledge'') =
           JStr (join [0x20, 0x2295, 0x20]
                   (map (\<lambda>lit. ToString e
                           (if truthy (get_prop (content lit) (js ''knowledge''))
                            then get_prop (content lit) (js ''knowledge'')
                            else if truthy (get_prop (content lit) (js ''description''))
                            then get_prop (content lit) (js ''description'')
                            else JStr []))
                      (map (\<lambda>lit. h ! lit) (List.map_filter (find (litComposer eng)) litIDs)))) \<and>
         CoherenceField_new e (content (h' ! fusedLIT res)) =
           Inr (coherenceField (h' ! fusedLIT res)) \<and>
         agentSystem (h' ! fusedLIT res) = AgentSystem_new [] \<and>
         map i_type (interactions (temporalSignature (h' ! fusedLIT res))) = [js ''fusion''] \<and>
         (\<exists>ea eb. same_platform e ea \<and> same_platform e eb \<and>
            reads e \<le> reads ea \<and> reads ea < reads eb \<and>
            temporalSignature (h' ! fusedLIT res) =
              fst (ts_record (js ''fusion'')
                     (if truthy (JNum (emergenceScore (emergence res)))
                      then emergenceScore (emergence res) else Fin 0.1)
                     (fst (TemporalSignature_new ea)) eb))"
  using assms by (rule harmonic_fusion_fields)

theorem harmonic_synthesis_fusion_witness:
  "\<not> isl (fst (fuse [js ''a'', js ''b''] (Some (js ''Harmonic Synthesis'')) ex_engine ex_heap ex_env)) \<and>
   pattern (projr (fst (fuse [js ''a'', js ''b''] (Some (js ''Harmonic Synthesis'')) ex_engine ex_heap
                          ex_env))) = js ''Harmonic Synthesis'' \<and>
   defaults_intact ex_engine \<and> valid_refs (litComposer ex_engine) ex_heap \<and>
   get_prop
     (content
        (fst (snd (snd (fuse [js ''a'', js ''b''] (Some (js ''Harmonic Synthesis'')) ex_engine ex_heap
                          ex_env))) !
         fusedLIT (projr (fst (fuse [js ''a'', js ''b''] (Some (js ''Harmonic Synthesis'')) ex_engine
                                ex_heap ex_env)))))
     (js ''synthesizedKnowledge'') =
   JStr (js ''alpha'' @ [0x20, 0x2295, 0x20] @ js ''beta'')"
proof -
  obtain res eng' h' e' where f:
    "fuse [js ''a'', js ''b''] (Some (js ''Harmonic Synthesis'')) ex_engine ex_heap ex_env =
       (Inr res, eng', h', e')"
    and p: "pattern res = js ''Harmonic Synthesis''"
    using ex_fuse_harmonic by blast
  have d: "defaults_intact ex_engine"
    by (simp add: ex_engine_def engine_new_intact)
  have l: "List.map_filter (find (litComposer ex_engine)) [js ''a'', js ''b''] = [0, Suc 0]"
    using ex_lits by simp
  have t: "truthy (JStr (js ''alpha''))" "truthy (JStr (js ''beta''))"
    by (simp_all add: js_def)
  have "get_prop (content (h' ! fusedLIT res)) (js ''synthesizedKnowledge'') =
        JStr (js ''alpha'' @ [0x20, 0x2295, 0x20] @ js ''beta'')"
    using harmonic_synthesis_fusion [OF f p d ex_valid_refs, unfolded l, THEN conjunct1] t
    by (simp add: ex_knowledge)
  then show ?thesis
    using p d ex_valid_refs by (simp add: f)
qed

theorem harmonic_synthesis_knowledge_zero:
  "get_prop (content (ex_heap3 ! 2)) (js ''knowledge'') = JNum (Fin 0) \<and>
   map_sum id pattern
     (fst (fuse [js ''c'', js ''b''] (Some (js ''Harmonic Synthesis'')) ex_engine3 ex_heap3 ex_env3)) =
     Inr (js ''Harmonic Synthesis'') \<and>
   get_prop
     (content
        (fst (snd (snd (fuse [js ''c'', js ''b''] (Some (js ''Harmonic Synthesis'')) ex_engine3
                          ex_heap3 ex_env3))) !
         fusedLIT (projr (fst (fuse [js ''c'', js ''b''] (Some (js ''Harmonic Synthesis''))
                                ex_engine3 ex_heap3 ex_env3)))))
     (js ''synthesizedKnowledge'') =
   JStr ([0x20, 0x2295, 0x20] @ js ''beta'') \<and>
   JStr (join [0x20, 0x2295, 0x20]
           (map (\<lambda>lit. ToString ex_env3 (knowledge_if_present (content lit)))
              (map (\<lambda>lit. ex_heap3 ! lit)
                 (List.map_filter (find (litComposer ex_engine3)) [js ''c'', js ''b''])))) =
   JStr (js ''0'' @ [0x20, 0x2295, 0x20] @ js ''beta'')"
proof -
  obtain res eng' h' e' where f:
    "fuse [js ''c'', js ''b''] (Some (js ''Harmonic Synthesis'')) ex_engine3 ex_heap3 ex_env3 =
       (Inr res, eng', h', e')"
    and p: "pattern res = js ''Harmonic Synthesis''"
    using ex_fuse_zero by blast
  have d: "defaults_intact ex_engine3"
    by (simp add: ex_engine3_def engine_new_intact)
  have t: "\<not> truthy (JNum (Fin 0))" "\<not> truthy JUndefined" "truthy (JStr (js ''beta''))"
    by (simp_all add: js_def)
  have one: "get_prop (content (h' ! fusedLIT res)) (js ''synthesizedKnowledge'') =
        JStr ([0x20, 0x2295, 0x20] @ js ''beta'')"
    using harmonic_fusion_fields [OF f p d ex_valid_refs3, unfolded ex_lits3, THEN conjunct1] t
    by (simp add: ex_knowledge3)
  have "numberToString ex_env3 = numberToString env0"
    using ex_env3_platform by (simp add: same_platform_def)
  then have z: "ToString ex_env3 (JNum (Fin 0)) = js ''0''"
    by (simp add: Number_toString_def env0_def digits10.simps js_def)
  have u: "JNum (Fin 0) \<noteq> JUndefined"
    by simp
  have two: "JStr (join [0x20, 0x2295, 0x20]
           (map (\<lambda>lit. ToString ex_env3 (knowledge_if_present (content lit)))
              (map (\<lambda>lit. ex_heap3 ! lit) [2, Suc 0]))) =
   JStr (js ''0'' @ [0x20, 0x2295, 0x20] @ js ''beta'')"
    using z by (simp add: knowledge_if_present_def ex_knowledge3)
  show ?thesis
    using one two p by (simp add: f ex_knowledge3 ex_lits3 del: map_filter_simps)
qed

end
